theory Spec2Isabelle
  imports Complex_Main
begin

section \<open>Numbers, vectors and matrices\<close>

text \<open>
  The simulation is written in TypeScript over the vector and matrix classes of the
  three.js library. A JavaScript number is modelled as a \<^typ>\<open>real\<close>: arithmetic is
  exact, there is no rounding, no infinity and no NaN. Cell indices, grid sizes and
  loop counters, which the program only ever fills with whole numbers, are
  \<^typ>\<open>int\<close>. The three.js operations mutate their receiver; here every operation
  returns the new value, and an object is identified with its value (no two fields of
  the state share a vector object).
\<close>

record Vector3 =
  vx :: real
  vy :: real
  vz :: real

text \<open>A vector whose components are whole numbers: a cell index or a neighbour offset.\<close>

record Index3 =
  ix :: int
  iy :: int
  iz :: int

text \<open>
  A three.js \<open>Matrix3\<close>, by its entries \<open>n\<^sub>r\<^sub>c\<close> (row r, column c). The constructor and
  \<open>set\<close> take the entries row by row; the array \<open>elements\<close> holds them column by column.
\<close>

record Matrix3 =
  n11 :: real
  n12 :: real
  n13 :: real
  n21 :: real
  n22 :: real
  n23 :: real
  n31 :: real
  n32 :: real
  n33 :: real

definition Vec3 :: "real \<Rightarrow> real \<Rightarrow> real \<Rightarrow> Vector3" where
  "Vec3 a b c = \<lparr>vx = a, vy = b, vz = c\<rparr>"

definition Idx3 :: "int \<Rightarrow> int \<Rightarrow> int \<Rightarrow> Index3" where
  "Idx3 a b c = \<lparr>ix = a, iy = b, iz = c\<rparr>"

definition Mat3 :: "real \<Rightarrow> real \<Rightarrow> real \<Rightarrow> real \<Rightarrow> real \<Rightarrow> real \<Rightarrow> real \<Rightarrow> real \<Rightarrow> real \<Rightarrow> Matrix3" where
  "Mat3 a11 a12 a13 a21 a22 a23 a31 a32 a33 =
     \<lparr>n11 = a11, n12 = a12, n13 = a13,
      n21 = a21, n22 = a22, n23 = a23,
      n31 = a31, n32 = a32, n33 = a33\<rparr>"

definition ZeroVector3 :: Vector3 where
  "ZeroVector3 = Vec3 0 0 0"

definition ZeroMatrix3 :: Matrix3 where
  "ZeroMatrix3 = Mat3 0 0 0 0 0 0 0 0 0"

definition ofIndex :: "Index3 \<Rightarrow> Vector3" where
  "ofIndex i = Vec3 (of_int (ix i)) (of_int (iy i)) (of_int (iz i))"

definition v_add :: "Vector3 \<Rightarrow> Vector3 \<Rightarrow> Vector3" where
  "v_add a b = Vec3 (vx a + vx b) (vy a + vy b) (vz a + vz b)"

definition v_sub :: "Vector3 \<Rightarrow> Vector3 \<Rightarrow> Vector3" where
  "v_sub a b = Vec3 (vx a - vx b) (vy a - vy b) (vz a - vz b)"

definition v_multiply :: "Vector3 \<Rightarrow> Vector3 \<Rightarrow> Vector3" where
  "v_multiply a b = Vec3 (vx a * vx b) (vy a * vy b) (vz a * vz b)"

definition v_divide :: "Vector3 \<Rightarrow> Vector3 \<Rightarrow> Vector3" where
  "v_divide a b = Vec3 (vx a / vx b) (vy a / vy b) (vz a / vz b)"

definition addScalar :: "Vector3 \<Rightarrow> real \<Rightarrow> Vector3" where
  "addScalar a s = Vec3 (vx a + s) (vy a + s) (vz a + s)"

definition multiplyScalar :: "Vector3 \<Rightarrow> real \<Rightarrow> Vector3" where
  "multiplyScalar a s = Vec3 (vx a * s) (vy a * s) (vz a * s)"

text \<open>three.js divides by a scalar by multiplying with its inverse.\<close>

definition divideScalar :: "Vector3 \<Rightarrow> real \<Rightarrow> Vector3" where
  "divideScalar a s = multiplyScalar a (1 / s)"

definition v_floor :: "Vector3 \<Rightarrow> Index3" where
  "v_floor a = Idx3 \<lfloor>vx a\<rfloor> \<lfloor>vy a\<rfloor> \<lfloor>vz a\<rfloor>"

definition v_max :: "Vector3 \<Rightarrow> Vector3 \<Rightarrow> Vector3" where
  "v_max a b = Vec3 (max (vx a) (vx b)) (max (vy a) (vy b)) (max (vz a) (vz b))"

definition v_min :: "Vector3 \<Rightarrow> Vector3 \<Rightarrow> Vector3" where
  "v_min a b = Vec3 (min (vx a) (vx b)) (min (vy a) (vy b)) (min (vz a) (vz b))"

definition addVectors :: "Index3 \<Rightarrow> Index3 \<Rightarrow> Index3" where
  "addVectors a b = Idx3 (ix a + ix b) (iy a + iy b) (iz a + iz b)"

definition applyMatrix3 :: "Vector3 \<Rightarrow> Matrix3 \<Rightarrow> Vector3" where
  "applyMatrix3 v m =
     Vec3 (n11 m * vx v + n12 m * vy v + n13 m * vz v)
          (n21 m * vx v + n22 m * vy v + n23 m * vz v)
          (n31 m * vx v + n32 m * vy v + n33 m * vz v)"

text \<open>\<open>a.multiply(b)\<close> stores the matrix product \<open>a \<sqdot> b\<close> in \<open>a\<close>.\<close>

definition m_multiply :: "Matrix3 \<Rightarrow> Matrix3 \<Rightarrow> Matrix3" where
  "m_multiply a b =
     Mat3 (n11 a * n11 b + n12 a * n21 b + n13 a * n31 b)
          (n11 a * n12 b + n12 a * n22 b + n13 a * n32 b)
          (n11 a * n13 b + n12 a * n23 b + n13 a * n33 b)
          (n21 a * n11 b + n22 a * n21 b + n23 a * n31 b)
          (n21 a * n12 b + n22 a * n22 b + n23 a * n32 b)
          (n21 a * n13 b + n22 a * n23 b + n23 a * n33 b)
          (n31 a * n11 b + n32 a * n21 b + n33 a * n31 b)
          (n31 a * n12 b + n32 a * n22 b + n33 a * n32 b)
          (n31 a * n13 b + n32 a * n23 b + n33 a * n33 b)"

definition m_multiplyScalar :: "Matrix3 \<Rightarrow> real \<Rightarrow> Matrix3" where
  "m_multiplyScalar a s =
     Mat3 (n11 a * s) (n12 a * s) (n13 a * s)
          (n21 a * s) (n22 a * s) (n23 a * s)
          (n31 a * s) (n32 a * s) (n33 a * s)"

text \<open>
  \<open>invert\<close> of three.js: the adjugate over the determinant, and the zero matrix when
  the determinant is 0.
\<close>

definition invert :: "Matrix3 \<Rightarrow> Matrix3" where
  "invert m =
     (let t11 = n33 m * n22 m - n32 m * n23 m;
          t12 = n32 m * n13 m - n33 m * n12 m;
          t13 = n23 m * n12 m - n22 m * n13 m;
          det = n11 m * t11 + n21 m * t12 + n31 m * t13
      in if det = 0 then Mat3 0 0 0 0 0 0 0 0 0
         else let detInv = 1 / det in
           Mat3 (t11 * detInv) (t12 * detInv) (t13 * detInv)
                ((n31 m * n23 m - n33 m * n21 m) * detInv)
                ((n33 m * n11 m - n31 m * n13 m) * detInv)
                ((n21 m * n13 m - n23 m * n11 m) * detInv)
                ((n32 m * n21 m - n31 m * n22 m) * detInv)
                ((n31 m * n12 m - n32 m * n11 m) * detInv)
                ((n22 m * n11 m - n21 m * n12 m) * detInv))"

text \<open>The array \<open>elements\<close> of a matrix: column-major.\<close>

definition elements :: "Matrix3 \<Rightarrow> nat \<Rightarrow> real" where
  "elements m k =
     (if k = 0 then n11 m else if k = 1 then n21 m else if k = 2 then n31 m
      else if k = 3 then n12 m else if k = 4 then n22 m else if k = 5 then n32 m
      else if k = 6 then n13 m else if k = 7 then n23 m else n33 m)"

section \<open>The grid (Grid.ts)\<close>

record Cell =
  mass :: real
  mv :: Vector3
  vel :: Vector3
  force :: Vector3

text \<open>\<open>new Cell()\<close>; \<open>clear\<close> and \<open>reset\<close> both leave a cell with these values.\<close>

definition newCell :: Cell where
  "newCell = \<lparr>mass = 0, mv = ZeroVector3, vel = ZeroVector3, force = ZeroVector3\<rparr>"

definition clear :: "Cell \<Rightarrow> Cell" where
  "clear c = c\<lparr>mass := 0, mv := ZeroVector3, vel := ZeroVector3, force := ZeroVector3\<rparr>"

definition reset :: "Cell \<Rightarrow> Cell" where
  "reset c = c\<lparr>mass := 0, mv := Vec3 0 0 0, vel := Vec3 0 0 0, force := Vec3 0 0 0\<rparr>"

record Grid =
  gsize :: Index3
  cellSize :: real
  leftBottomBackPos :: Vector3
  data :: "Cell list"

definition initData :: "Index3 \<Rightarrow> Cell list" where
  "initData sz = replicate (nat (ix sz * iy sz * iz sz)) newCell"

definition newGrid :: "Index3 \<Rightarrow> real \<Rightarrow> Vector3 \<Rightarrow> Grid" where
  "newGrid sz cs lbb = \<lparr>gsize = sz, cellSize = cs, leftBottomBackPos = lbb, data = initData sz\<rparr>"

definition is2D :: "Grid \<Rightarrow> bool" where
  "is2D g \<longleftrightarrow> iz (gsize g) = 1"

definition cellDimensions :: "Grid \<Rightarrow> Vector3" where
  "cellDimensions g = Vec3 (cellSize g) (cellSize g) (if is2D g then 1.0 else cellSize g)"

definition invCellDimensions :: "Grid \<Rightarrow> Vector3" where
  "invCellDimensions g =
     Vec3 (1.0 / cellSize g) (1.0 / cellSize g) (if is2D g then 1.0 else 1.0 / cellSize g)"

definition getH :: "Grid \<Rightarrow> Vector3" where
  "getH g = cellDimensions g"

definition getInvH :: "Grid \<Rightarrow> Vector3" where
  "getInvH g = invCellDimensions g"

definition gridDimensions :: "Grid \<Rightarrow> Vector3" where
  "gridDimensions g = v_multiply (cellDimensions g) (ofIndex (gsize g))"

text \<open>A three.js \<open>Box3\<close> as the pair of its corners \<open>(min, max)\<close>.\<close>

definition getBounds :: "Grid \<Rightarrow> Vector3 \<times> Vector3" where
  "getBounds g = (leftBottomBackPos g, v_add (gridDimensions g) (leftBottomBackPos g))"

definition toFlatIndex :: "Grid \<Rightarrow> int \<Rightarrow> int \<Rightarrow> int \<Rightarrow> int" where
  "toFlatIndex g xIdx yIdx zIdx =
     xIdx + yIdx * ix (gsize g) + zIdx * ix (gsize g) * iy (gsize g)"

definition resetCells :: "Grid \<Rightarrow> Grid" where
  "resetCells g = g\<lparr>data := map reset (data g)\<rparr>"

text \<open>
  \<open>getCell\<close> reads \<open>data[flatIdx]\<close>; its \<open>console.assert\<close> only logs. Outside the array
  the read gives \<open>undefined\<close>, here \<open>None\<close>.
\<close>

definition getCell :: "Grid \<Rightarrow> Index3 \<Rightarrow> Cell option" where
  "getCell g idx =
     (let flatIdx = toFlatIndex g (ix idx) (iy idx) (iz idx)
      in if 0 \<le> flatIdx \<and> flatIdx < int (length (data g))
         then Some (data g ! nat flatIdx) else None)"

text \<open>Writing back the cell object that \<open>getCell\<close> returned.\<close>

definition putCell :: "Grid \<Rightarrow> Index3 \<Rightarrow> Cell \<Rightarrow> Grid" where
  "putCell g idx c =
     g\<lparr>data := (data g)[nat (toFlatIndex g (ix idx) (iy idx) (iz idx)) := c]\<rparr>"

definition isValidCellIndex :: "Grid \<Rightarrow> int \<Rightarrow> int \<Rightarrow> int \<Rightarrow> bool" where
  "isValidCellIndex g xIdx yIdx zIdx =
     (let flatIdx = toFlatIndex g xIdx yIdx zIdx
      in 0 \<le> flatIdx \<and> flatIdx < int (length (data g)))"

definition cellIndexToPosition :: "Grid \<Rightarrow> int \<Rightarrow> int \<Rightarrow> int \<Rightarrow> Vector3" where
  "cellIndexToPosition g xIdx yIdx zIdx =
     (let v = multiplyScalar (addScalar (ofIndex (Idx3 xIdx yIdx zIdx)) 0.5) (cellSize g)
      in v_add v (leftBottomBackPos g))"

definition cellPositionToIndex :: "Grid \<Rightarrow> Vector3 \<Rightarrow> Index3" where
  "cellPositionToIndex g pos =
     v_floor (v_divide (v_sub pos (leftBottomBackPos g)) (cellDimensions g))"

definition getNQuadratic :: "real \<Rightarrow> real" where
  "getNQuadratic x0 =
     (let x = \<bar>x0\<bar>
      in if x < 0.5 then 0.75 - x * x
         else if x < 1.5 then 0.5 * (1.5 - x) * (1.5 - x)
         else 0)"

definition getNQuadraticDerivative :: "real \<Rightarrow> real" where
  "getNQuadraticDerivative x0 =
     (let x = \<bar>x0\<bar>
      in if x < 0.5 then -2 * x
         else if x < 1.5 then (if x > 0 then x - 1.5 else - (x - 1.5))
         else 0)"

definition getWeight :: "Grid \<Rightarrow> Vector3 \<Rightarrow> Index3 \<Rightarrow> real" where
  "getWeight g pos delta =
     (let gridIndex = addVectors (cellPositionToIndex g pos) delta
      in if \<not> isValidCellIndex g (ix gridIndex) (iy gridIndex) (iz gridIndex) then 0
         else
           let gridPos = cellIndexToPosition g (ix gridIndex) (iy gridIndex) (iz gridIndex);
               dis = v_divide (v_sub pos gridPos) (getH g)
           in getNQuadratic (vx dis) * getNQuadratic (vy dis) *
              (if is2D g then 1.0 else getNQuadratic (vz dis)))"

definition getWeightGradient :: "Grid \<Rightarrow> Vector3 \<Rightarrow> Index3 \<Rightarrow> Vector3" where
  "getWeightGradient g pos delta =
     (let gridIndex = addVectors (cellPositionToIndex g pos) delta
      in if \<not> isValidCellIndex g (ix gridIndex) (iy gridIndex) (iz gridIndex) then ZeroVector3
         else
           let gridPos = cellIndexToPosition g (ix gridIndex) (iy gridIndex) (iz gridIndex);
               invH = getInvH g;
               dis = v_multiply (v_sub pos gridPos) invH;
               wx = getNQuadratic (vx dis);
               wy = getNQuadratic (vy dis);
               wz = (if is2D g then 1.0 else getNQuadratic (vz dis));
               wdx = getNQuadraticDerivative (vx dis);
               wdy = getNQuadraticDerivative (vy dis);
               wdz = (if is2D g then 1.0 else getNQuadraticDerivative (vz dis))
           in v_multiply invH (Vec3 (wdx * wy * wz) (wx * wdy * wz) (wx * wy * wdz)))"

definition getDQuadratic :: "Grid \<Rightarrow> Matrix3" where
  "getDQuadratic g =
     (let H = getH g;
          v = multiplyScalar (v_multiply H H) 0.25
      in Mat3 (vx v) 0 0
              0 (vy v) 0
              0 0 (vz v))"

section \<open>The simulation (MPMSystem.ts)\<close>

definition GRID_SIZE :: int where
  "GRID_SIZE = 64"

definition HALF_GRID_SIZE :: real where
  "HALF_GRID_SIZE = of_int GRID_SIZE / 2"

definition GRAVITY :: Vector3 where
  "GRAVITY = Vec3 0 (-9.8) 0"

record Particle =
  active :: bool
  mass :: real
  pos :: Vector3
  vel :: Vector3
  B :: Matrix3

text \<open>\<open>new Particle(active, mass, pos)\<close>: the velocity defaults to zero, \<open>B\<close> starts at zero.\<close>

definition newParticle :: "bool \<Rightarrow> real \<Rightarrow> Vector3 \<Rightarrow> Particle" where
  "newParticle a m p = \<lparr>active = a, mass = m, pos = p, vel = ZeroVector3, B = ZeroMatrix3\<rparr>"

record MPMSystem =
  grid :: Grid
  particles :: "Particle list"

definition newMPMSystem :: "real \<Rightarrow> MPMSystem" where
  "newMPMSystem cs =
     \<lparr>grid = newGrid (Idx3 GRID_SIZE GRID_SIZE 1) cs
               (multiplyScalar (Vec3 (- HALF_GRID_SIZE) (- HALF_GRID_SIZE) 0) cs),
      particles = []\<rparr>"

text \<open>
  Three nested counting loops \<open>for (a = lo; a <= hi; a++)\<close>, outermost first, as the list
  of the triples the innermost body sees, in the order it sees them.
\<close>

definition loop3 :: "int \<Rightarrow> int \<Rightarrow> int \<Rightarrow> int \<Rightarrow> int \<Rightarrow> int \<Rightarrow> (int \<times> int \<times> int) list" where
  "loop3 xlo xhi ylo yhi zlo zhi = List.product [xlo..xhi] (List.product [ylo..yhi] [zlo..zhi])"

text \<open>
  \<open>addParticles\<close>. The assertions are \<open>console.assert\<close> calls, which log and go on.
  \<open>boxDim.divideScalar(size).floor()\<close> works in place, so \<open>numParticles\<close> is the object
  \<open>boxDim\<close> and the test \<open>boxDim.z == 0\<close> reads the floored quotient.
\<close>

definition addParticles :: "MPMSystem \<Rightarrow> Vector3 \<Rightarrow> Vector3 \<Rightarrow> real \<Rightarrow> real \<Rightarrow> MPMSystem" where
  "addParticles s mn mx sz m =
     (let boxDim = v_sub mx mn;
          halfSize = sz / 2.0;
          floored = v_floor (divideScalar boxDim sz);
          numParticles = (if iz floored = 0 then floored\<lparr>iz := 1\<rparr> else floored)
      in s\<lparr>particles := particles s @
             map (\<lambda>(x, y, z). newParticle True m
                    (Vec3 (vx mn + of_int x * sz + halfSize)
                          (vy mn + of_int y * sz + halfSize)
                          (vz mn + of_int z * sz + halfSize)))
               (loop3 0 (ix numParticles - 1) 0 (iy numParticles - 1) 0 (iz numParticles - 1))\<rparr>)"

text \<open>
  A loop whose body can fail: \<open>None\<close> is the \<open>TypeError\<close> of reading a field of
  \<open>undefined\<close>, which ends the whole call.
\<close>

fun foldOpt :: "('a \<Rightarrow> 's \<Rightarrow> 's option) \<Rightarrow> 'a list \<Rightarrow> 's \<Rightarrow> 's option" where
  "foldOpt f [] s = Some s"
| "foldOpt f (a # as) s = (case f a s of None \<Rightarrow> None | Some s' \<Rightarrow> foldOpt f as s')"

text \<open>The offsets \<open>(gx, gy, gz)\<close> of the neighbour loops of both transfer phases.\<close>

definition neighbours :: "Grid \<Rightarrow> (int \<times> int \<times> int) list" where
  "neighbours g =
     (let gzInit = (if is2D g then 0 else -1);
          gzEnd = (if is2D g then 0 else 1)
      in loop3 (-1) 1 (-1) 1 gzInit gzEnd)"

text \<open>The body of the innermost loop of \<open>_particleToGrid\<close>.\<close>

definition p2gCell :: "Particle \<Rightarrow> Matrix3 \<Rightarrow> Index3 \<Rightarrow> int \<times> int \<times> int \<Rightarrow> Grid \<Rightarrow> Grid option" where
  "p2gCell p apic gridIdx = (\<lambda>(gx, gy, gz) g.
     let delta = Idx3 gx gy gz;
         idx = addVectors gridIdx delta
     in if \<not> isValidCellIndex g (ix idx) (iy idx) (iz idx) then Some g
        else
          let weight = getWeight g (pos p) delta;
              gridPos = cellIndexToPosition g (ix idx) (iy idx) (iz idx)
          in case getCell g idx of
               None \<Rightarrow> None
             | Some cell \<Rightarrow>
                 Some (putCell g idx
                   (cell\<lparr>Cell.mass := Cell.mass cell + weight * mass p,
                         mv := v_add (mv cell)
                           (multiplyScalar
                              (v_add (applyMatrix3 (v_sub gridPos (pos p)) apic) (vel p))
                              (weight * mass p))\<rparr>)))"

text \<open>
  One particle of \<open>_particleToGrid\<close>. \<open>p.B.multiply(Dinv)\<close> works in place: \<open>apic\<close> is
  the object \<open>p.B\<close>, which now holds the product.
\<close>

definition p2gParticle :: "Matrix3 \<Rightarrow> Particle \<Rightarrow> Grid \<Rightarrow> (Particle \<times> Grid) option" where
  "p2gParticle Dinv p g =
     (let gridIdx = cellPositionToIndex g (pos p);
          apic = m_multiply (B p) Dinv;
          p' = p\<lparr>B := apic\<rparr>
      in case foldOpt (p2gCell p' apic gridIdx) (neighbours g) g of
           None \<Rightarrow> None
         | Some g' \<Rightarrow> Some (p', g'))"

fun p2gLoop :: "Matrix3 \<Rightarrow> Particle list \<Rightarrow> Grid \<Rightarrow> (Particle list \<times> Grid) option" where
  "p2gLoop Dinv [] g = Some ([], g)"
| "p2gLoop Dinv (p # ps) g =
     (case p2gParticle Dinv p g of
        None \<Rightarrow> None
      | Some (p', g') \<Rightarrow>
          (case p2gLoop Dinv ps g' of
             None \<Rightarrow> None
           | Some (ps', g'') \<Rightarrow> Some (p' # ps', g'')))"

definition particleToGrid :: "MPMSystem \<Rightarrow> MPMSystem option" where
  "particleToGrid s =
     (let Dinv = invert (getDQuadratic (grid s))
      in case p2gLoop Dinv (particles s) (grid s) of
           None \<Rightarrow> None
         | Some (ps', g') \<Rightarrow> Some (s\<lparr>grid := g', particles := ps'\<rparr>))"

text \<open>The body of the innermost loop of \<open>_updateGrid\<close>.\<close>

definition updateCell :: "real \<Rightarrow> int \<times> int \<times> int \<Rightarrow> Grid \<Rightarrow> Grid option" where
  "updateCell dt = (\<lambda>(x, y, z) g.
     let idx = Idx3 x y z
     in case getCell g idx of
          None \<Rightarrow> None
        | Some cell \<Rightarrow>
            if Cell.mass cell \<le> 0 then Some (putCell g idx (clear cell))
            else
              let v0 = divideScalar (mv cell) (Cell.mass cell);
                  v1 = v_add v0
                         (multiplyScalar
                            (v_add (divideScalar (force cell) (Cell.mass cell)) GRAVITY) dt);
                  v2 = (if x < 2 \<or> x \<ge> ix (gsize g) - 2 then v1\<lparr>vx := 0\<rparr> else v1);
                  v3 = (if y < 2 \<or> y \<ge> iy (gsize g) - 2 then v2\<lparr>vy := 0\<rparr> else v2);
                  v4 = (if \<not> is2D g \<and> (z < 2 \<or> z \<ge> iz (gsize g) - 2) then v3\<lparr>vz := 0\<rparr> else v3)
              in Some (putCell g idx (cell\<lparr>Cell.vel := v4\<rparr>)))"

definition updateGridCells :: "real \<Rightarrow> Grid \<Rightarrow> Grid option" where
  "updateGridCells dt g =
     foldOpt (updateCell dt)
       (loop3 0 (ix (gsize g) - 1) 0 (iy (gsize g) - 1) 0 (iz (gsize g) - 1)) g"

definition updateGrid :: "real \<Rightarrow> MPMSystem \<Rightarrow> MPMSystem option" where
  "updateGrid dt s =
     (case updateGridCells dt (grid s) of
        None \<Rightarrow> None
      | Some g' \<Rightarrow> Some (s\<lparr>grid := g'\<rparr>))"

definition outerMulVec3 :: "Vector3 \<Rightarrow> Vector3 \<Rightarrow> Matrix3" where
  "outerMulVec3 v1 v2 =
     Mat3 (vx v1 * vx v2) (vx v1 * vy v2) (vx v1 * vz v2)
          (vy v1 * vx v2) (vy v1 * vy v2) (vy v1 * vz v2)
          (vz v1 * vx v2) (vz v1 * vy v2) (vz v1 * vz v2)"

text \<open>
  \<open>addInPlaceMatrix3\<close> hands the sums of the \<open>elements\<close> arrays, which are column-major,
  to \<open>set\<close>, which takes its arguments row by row.
\<close>

definition addInPlaceMatrix3 :: "Matrix3 \<Rightarrow> Matrix3 \<Rightarrow> Matrix3" where
  "addInPlaceMatrix3 m1 m2 =
     Mat3 (elements m1 0 + elements m2 0) (elements m1 1 + elements m2 1) (elements m1 2 + elements m2 2)
          (elements m1 3 + elements m2 3) (elements m1 4 + elements m2 4) (elements m1 5 + elements m2 5)
          (elements m1 6 + elements m2 6) (elements m1 7 + elements m2 7) (elements m1 8 + elements m2 8)"

text \<open>
  The body of the innermost loop of \<open>_gridToParticle\<close>. \<open>cellVel.multiplyScalar(weight)\<close>
  works in place, so the outer product is taken of the weighted velocity.
\<close>

definition g2pCell :: "Grid \<Rightarrow> Index3 \<Rightarrow> int \<times> int \<times> int \<Rightarrow> Particle \<Rightarrow> Particle option" where
  "g2pCell g gridIdx = (\<lambda>(gx, gy, gz) p.
     let delta = Idx3 gx gy gz;
         idx = addVectors gridIdx delta
     in if \<not> isValidCellIndex g (ix idx) (iy idx) (iz idx) then Some p
        else
          let weight = getWeight g (pos p) delta;
              gridPos = cellIndexToPosition g (ix idx) (iy idx) (iz idx)
          in case getCell g idx of
               None \<Rightarrow> None
             | Some cell \<Rightarrow>
                 let cellVel = multiplyScalar (Cell.vel cell) weight;
                     m = m_multiplyScalar (outerMulVec3 cellVel (v_sub gridPos (pos p))) weight
                 in Some (p\<lparr>vel := v_add (vel p) cellVel, B := addInPlaceMatrix3 (B p) m\<rparr>))"

definition g2pParticle :: "real \<Rightarrow> Grid \<Rightarrow> Particle \<Rightarrow> Particle option" where
  "g2pParticle dt g p =
     (let gridBounds = getBounds g;
          p0 = p\<lparr>vel := ZeroVector3, B := ZeroMatrix3\<rparr>;
          gridIdx = cellPositionToIndex g (pos p0)
      in case foldOpt (g2pCell g gridIdx) (neighbours g) p0 of
           None \<Rightarrow> None
         | Some p1 \<Rightarrow>
             let q1 = v_add (pos p1) (multiplyScalar (vel p1) dt);
                 q2 = v_max q1 (fst gridBounds);
                 q3 = v_min q2 (snd gridBounds)
             in Some (p1\<lparr>pos := q3\<rparr>))"

fun g2pLoop :: "real \<Rightarrow> Grid \<Rightarrow> Particle list \<Rightarrow> Particle list option" where
  "g2pLoop dt g [] = Some []"
| "g2pLoop dt g (p # ps) =
     (case g2pParticle dt g p of
        None \<Rightarrow> None
      | Some p' \<Rightarrow>
          (case g2pLoop dt g ps of
             None \<Rightarrow> None
           | Some ps' \<Rightarrow> Some (p' # ps')))"

definition gridToParticle :: "real \<Rightarrow> MPMSystem \<Rightarrow> MPMSystem option" where
  "gridToParticle dt s =
     (case g2pLoop dt (grid s) (particles s) of
        None \<Rightarrow> None
      | Some ps' \<Rightarrow> Some (s\<lparr>particles := ps'\<rparr>))"

text \<open>\<open>step\<close>: \<open>Some\<close> of the state when it returns, \<open>None\<close> when it throws.\<close>

definition step :: "MPMSystem \<Rightarrow> real \<Rightarrow> MPMSystem option" where
  "step s dt =
     (if dt \<le> 0 then Some s
      else
        case particleToGrid (s\<lparr>grid := resetCells (grid s)\<rparr>) of
          None \<Rightarrow> None
        | Some s1 \<Rightarrow>
            (case updateGrid dt s1 of
               None \<Rightarrow> None
             | Some s2 \<Rightarrow> gridToParticle dt s2))"

section \<open>Notions used in the statements\<close>

subsection \<open>Well-formed grids\<close>

text \<open>
  The invariants of a grid: a positive cell size, a positive number of cells on every
  axis, and one cell object for every lattice position. The constructor of \<open>Grid\<close>
  asserts the first, asserts that the number of cells is positive, and builds the cells.
\<close>

definition validGrid :: "Grid \<Rightarrow> bool" where
  "validGrid g \<longleftrightarrow>
     0 < cellSize g \<and> 0 < ix (gsize g) \<and> 0 < iy (gsize g) \<and> 0 < iz (gsize g) \<and>
     length (data g) = nat (ix (gsize g) * iy (gsize g) * iz (gsize g))"

text \<open>A lattice position: every component of the index is within the size on its axis.\<close>

definition inLattice :: "Grid \<Rightarrow> int \<Rightarrow> int \<Rightarrow> int \<Rightarrow> bool" where
  "inLattice g x y z \<longleftrightarrow>
     0 \<le> x \<and> x < ix (gsize g) \<and> 0 \<le> y \<and> y < iy (gsize g) \<and> 0 \<le> z \<and> z < iz (gsize g)"

text \<open>A point of a box given by its two corners, componentwise.\<close>

definition containsPoint :: "Vector3 \<times> Vector3 \<Rightarrow> Vector3 \<Rightarrow> bool" where
  "containsPoint b p \<longleftrightarrow>
     vx (fst b) \<le> vx p \<and> vx p \<le> vx (snd b) \<and>
     vy (fst b) \<le> vy p \<and> vy p \<le> vy (snd b) \<and>
     vz (fst b) \<le> vz p \<and> vz p \<le> vz (snd b)"

text \<open>Two grids of the same shape: same size, cell size, origin and number of cell objects.\<close>

definition sameShape :: "Grid \<Rightarrow> Grid \<Rightarrow> bool" where
  "sameShape g g' \<longleftrightarrow>
     gsize g' = gsize g \<and> cellSize g' = cellSize g \<and>
     leftBottomBackPos g' = leftBottomBackPos g \<and> length (data g') = length (data g)"

text \<open>All particles of a state lie in the bounding box of its grid.\<close>

definition particlesInBounds :: "MPMSystem \<Rightarrow> bool" where
  "particlesInBounds s \<longleftrightarrow>
     (\<forall>p \<in> set (particles s). containsPoint (getBounds (grid s)) (pos p))"


subsection \<open>The grid update, cell by cell\<close>

text \<open>
  What the body of the loop of \<open>_updateGrid\<close> leaves in the cell it visits at
  \<open>(x, y, z)\<close>, as a function of what it found there.
\<close>

definition cellAfterUpdate :: "real \<Rightarrow> Grid \<Rightarrow> int \<times> int \<times> int \<Rightarrow> Cell \<Rightarrow> Cell" where
  "cellAfterUpdate dt g = (\<lambda>(x, y, z) cell.
     if Cell.mass cell \<le> 0 then clear cell
     else
       let v0 = divideScalar (mv cell) (Cell.mass cell);
           v1 = v_add v0
                  (multiplyScalar
                     (v_add (divideScalar (force cell) (Cell.mass cell)) GRAVITY) dt);
           v2 = (if x < 2 \<or> x \<ge> ix (gsize g) - 2 then v1\<lparr>vx := 0\<rparr> else v1);
           v3 = (if y < 2 \<or> y \<ge> iy (gsize g) - 2 then v2\<lparr>vy := 0\<rparr> else v2);
           v4 = (if \<not> is2D g \<and> (z < 2 \<or> z \<ge> iz (gsize g) - 2) then v3\<lparr>vz := 0\<rparr> else v3)
       in cell\<lparr>Cell.vel := v4\<rparr>)"

definition flatOf :: "Grid \<Rightarrow> int \<times> int \<times> int \<Rightarrow> nat" where
  "flatOf g = (\<lambda>(x, y, z). nat (toFlatIndex g x y z))"

definition inRange :: "Grid \<Rightarrow> int \<times> int \<times> int \<Rightarrow> bool" where
  "inRange g = (\<lambda>(x, y, z). 0 \<le> toFlatIndex g x y z \<and> toFlatIndex g x y z < int (length (data g)))"

subsection \<open>Interior positions and the sum of the weights\<close>

text \<open>The sum of \<open>getWeight\<close> over the offsets of the neighbour loops.\<close>

definition weightSum :: "Grid \<Rightarrow> Vector3 \<Rightarrow> real" where
  "weightSum g p = sum_list (map (\<lambda>(gx, gy, gz). getWeight g p (Idx3 gx gy gz)) (neighbours g))"

text \<open>
  A position at least 1.5 cell widths away from both ends of the grid on every active
  axis: x and y, and z when the grid is 3D.
\<close>

definition awayFromBoundary :: "Grid \<Rightarrow> Vector3 \<Rightarrow> bool" where
  "awayFromBoundary g p \<longleftrightarrow>
     vx (leftBottomBackPos g) + 1.5 * cellSize g \<le> vx p \<and>
     vx p \<le> vx (leftBottomBackPos g) + (of_int (ix (gsize g)) - 1.5) * cellSize g \<and>
     vy (leftBottomBackPos g) + 1.5 * cellSize g \<le> vy p \<and>
     vy p \<le> vy (leftBottomBackPos g) + (of_int (iy (gsize g)) - 1.5) * cellSize g \<and>
     (is2D g \<or>
      vz (leftBottomBackPos g) + 1.5 * cellSize g \<le> vz p \<and>
      vz p \<le> vz (leftBottomBackPos g) + (of_int (iz (gsize g)) - 1.5) * cellSize g)"

text \<open>On a 2D grid, a position inside the one layer of cells, which is 1 deep.\<close>

definition inLayer :: "Grid \<Rightarrow> Vector3 \<Rightarrow> bool" where
  "inLayer g p \<longleftrightarrow>
     (is2D g \<longrightarrow> vz (leftBottomBackPos g) \<le> vz p \<and> vz p < vz (leftBottomBackPos g) + 1)"

text \<open>
  The kernel value \<open>getWeight\<close> computes on one axis, for the neighbour at offset \<open>d\<close>
  from the cell of the coordinate \<open>p\<close>.
\<close>

definition axisWeight :: "real \<Rightarrow> real \<Rightarrow> real \<Rightarrow> int \<Rightarrow> real" where
  "axisWeight cs org p d =
     getNQuadratic ((p - ((of_int (\<lfloor>(p - org) / cs\<rfloor> + d) + 0.5) * cs + org)) / cs)"

subsection \<open>Example states\<close>

definition massiveCell :: Cell where
  "massiveCell = \<lparr>Cell.mass = 2, mv = Vec3 4 2 0, vel = ZeroVector3, force = ZeroVector3\<rparr>"

text \<open>
  A 5 by 5 grid of unit cells with two cells of mass 2, one in the interior and one in the
  boundary layer, and one particle.
\<close>

definition smallSystem :: MPMSystem where
  "smallSystem =
     \<lparr>grid = putCell (putCell (newGrid (Idx3 5 5 1) 1 (Vec3 0 0 0)) (Idx3 2 2 0) massiveCell)
                (Idx3 1 2 0) massiveCell,
      particles = [newParticle True 1 (Vec3 2.5 2.5 0.5)]\<rparr>"

text \<open>
  The grid of the simulation with unit cells and one particle in the lattice cell
  \<open>(0, 1, 0)\<close>, at the left edge.
\<close>

definition edgeParticle :: Particle where
  "edgeParticle = (newParticle True 1 (Vec3 (- 31.5) (- 30.5) 0.5))\<lparr>vel := Vec3 1 0 0\<rparr>"

definition edgeSystem :: MPMSystem where
  "edgeSystem = (newMPMSystem 1)\<lparr>particles := [edgeParticle]\<rparr>"

text \<open>
  The same state after a grid update that left the lattice cell \<open>(63, 0, 0)\<close>, at the
  right edge of the row below, with mass 1 and velocity \<open>(1, 0, 0)\<close>.
\<close>

definition movingCell :: Cell where
  "movingCell = \<lparr>Cell.mass = 1, mv = Vec3 1 0 0, vel = Vec3 1 0 0, force = Vec3 0 0 0\<rparr>"

definition edgeSystemMoving :: MPMSystem where
  "edgeSystemMoving = edgeSystem\<lparr>grid := putCell (grid edgeSystem) (Idx3 63 0 0) movingCell\<rparr>"

section \<open>Seeding\<close>

text \<open>
  C1 (amended). On a fresh simulation, \<open>addParticles\<close> with \<open>min = (0,0,0)\<close>,
  \<open>max = (1,1,0)\<close>, spacing 0.5 and mass 1 produces exactly four particles, in this order:
  at \<open>(0.25,0.25,0.25)\<close>, \<open>(0.25,0.75,0.25)\<close>, \<open>(0.75,0.25,0.25)\<close> and
  \<open>(0.75,0.75,0.25)\<close>, each active, of mass 1, at rest and with a zero matrix \<open>B\<close>.
  The z coordinate is \<open>min.z\<close> plus half the spacing, as on the other axes.
\<close>

theorem addParticles_unit_square:
  "particles (addParticles (newMPMSystem c) (Vec3 0 0 0) (Vec3 1 1 0) 0.5 1) =
     [\<lparr>active = True, mass = 1, pos = Vec3 0.25 0.25 0.25, vel = Vec3 0 0 0, B = ZeroMatrix3\<rparr>,
      \<lparr>active = True, mass = 1, pos = Vec3 0.25 0.75 0.25, vel = Vec3 0 0 0, B = ZeroMatrix3\<rparr>,
      \<lparr>active = True, mass = 1, pos = Vec3 0.75 0.25 0.25, vel = Vec3 0 0 0, B = ZeroMatrix3\<rparr>,
      \<lparr>active = True, mass = 1, pos = Vec3 0.75 0.75 0.25, vel = Vec3 0 0 0, B = ZeroMatrix3\<rparr>]"
  by (simp add: addParticles_def newMPMSystem_def newParticle_def ZeroVector3_def
      v_sub_def divideScalar_def multiplyScalar_def v_floor_def Vec3_def Idx3_def
      loop3_def upto.simps Let_def)

text \<open>
  C1 as stated fails: the particles are not at \<open>(0.25,0.25,0)\<close>, \<open>(0.25,0.75,0)\<close>,
  \<open>(0.75,0.25,0)\<close>, \<open>(0.75,0.75,0)\<close>.
\<close>

theorem addParticles_unit_square_not_flat:
  "map pos (particles (addParticles (newMPMSystem 0.1) (Vec3 0 0 0) (Vec3 1 1 0) 0.5 1)) \<noteq>
     [Vec3 0.25 0.25 0, Vec3 0.25 0.75 0, Vec3 0.75 0.25 0, Vec3 0.75 0.75 0]"
  by (simp add: addParticles_def newMPMSystem_def newParticle_def ZeroVector3_def
      v_sub_def divideScalar_def multiplyScalar_def v_floor_def Vec3_def Idx3_def
      loop3_def upto.simps Let_def)

section \<open>The quadratic kernel\<close>

lemma getNQuadratic_even: "getNQuadratic (- x) = getNQuadratic x"
  by (simp add: getNQuadratic_def)

text \<open>As written, the derivative is an even function as well: it only reads \<open>|x|\<close>.\<close>

lemma getNQuadraticDerivative_even: "getNQuadraticDerivative (- x) = getNQuadraticDerivative x"
  by (simp add: getNQuadraticDerivative_def)

text \<open>
  C2. The kernel is even, and its derivative should be odd. The code takes \<open>|x|\<close> before
  it looks at the sign, so at \<open>x = 1\<close> and at \<open>x = -1\<close> it returns the same value
  \<open>-0.5\<close>, and at \<open>x = -0.25\<close> it returns \<open>-0.5\<close> where \<open>-2x\<close> is \<open>0.5\<close>.
\<close>

theorem getNQuadraticDerivative_not_odd:
  "getNQuadraticDerivative 1 = - 0.5 \<and> getNQuadraticDerivative (- 1) = - 0.5 \<and>
   getNQuadraticDerivative (- 0.25) = - 0.5"
  by (simp add: getNQuadraticDerivative_def)

section \<open>The matrix D\<close>

text \<open>
  C3 (amended). \<open>getDQuadratic\<close> returns a diagonal matrix whose x and y entries are
  \<open>cellSize\<^sup>2 / 4\<close>; the z entry is \<open>1/4\<close> when the grid is 2D (the cell is 1 deep
  there) and \<open>cellSize\<^sup>2 / 4\<close> when it is 3D.
\<close>

theorem getDQuadratic_diagonal:
  "n11 (getDQuadratic g) = (cellSize g)\<^sup>2 / 4 \<and> n22 (getDQuadratic g) = (cellSize g)\<^sup>2 / 4 \<and>
   n12 (getDQuadratic g) = 0 \<and> n13 (getDQuadratic g) = 0 \<and> n21 (getDQuadratic g) = 0 \<and>
   n23 (getDQuadratic g) = 0 \<and> n31 (getDQuadratic g) = 0 \<and> n32 (getDQuadratic g) = 0 \<and>
   (is2D g \<longrightarrow> n33 (getDQuadratic g) = 1 / 4) \<and>
   (\<not> is2D g \<longrightarrow> n33 (getDQuadratic g) = (cellSize g)\<^sup>2 / 4)"
  by (simp add: getDQuadratic_def getH_def cellDimensions_def multiplyScalar_def
      v_multiply_def Vec3_def Mat3_def power2_eq_square)

theorem getDQuadratic_diagonal_witness:
  "is2D (newGrid (Idx3 64 64 1) 0.1 (Vec3 (-3.2) (-3.2) 0)) \<and>
   n33 (getDQuadratic (newGrid (Idx3 64 64 1) 0.1 (Vec3 (-3.2) (-3.2) 0))) = 1 / 4 \<and>
   \<not> is2D (newGrid (Idx3 4 4 4) 2 (Vec3 0 0 0)) \<and>
   n33 (getDQuadratic (newGrid (Idx3 4 4 4) 2 (Vec3 0 0 0))) = 1"
  using getDQuadratic_diagonal [of "newGrid (Idx3 64 64 1) 0.1 (Vec3 (-3.2) (-3.2) 0)"]
    getDQuadratic_diagonal [of "newGrid (Idx3 4 4 4) 2 (Vec3 0 0 0)"]
  by (simp add: is2D_def newGrid_def Idx3_def)

text \<open>C3 as stated fails: on the 2D grid of the simulation the z entry is not 0.\<close>

theorem getDQuadratic_2D_z_entry_nonzero:
  "is2D (grid (newMPMSystem 0.1)) \<and> n33 (getDQuadratic (grid (newMPMSystem 0.1))) \<noteq> 0"
  by (simp add: getDQuadratic_def getH_def cellDimensions_def multiplyScalar_def
      v_multiply_def Vec3_def Mat3_def is2D_def newMPMSystem_def newGrid_def Idx3_def)

section \<open>Cell centres\<close>

text \<open>The position \<open>cellIndexToPosition\<close> returns: every axis is scaled by \<open>cellSize\<close>.\<close>

lemma cellIndexToPosition_eq:
  "cellIndexToPosition g i j k =
     Vec3 (vx (leftBottomBackPos g) + (of_int i + 0.5) * cellSize g)
          (vy (leftBottomBackPos g) + (of_int j + 0.5) * cellSize g)
          (vz (leftBottomBackPos g) + (of_int k + 0.5) * cellSize g)"
  by (simp add: cellIndexToPosition_def Vec3_def Idx3_def ofIndex_def addScalar_def
      multiplyScalar_def v_add_def)

text \<open>It is the centre \<open>origin + (i + 0.5) * cellDims\<close> on a 3D grid.\<close>

lemma cellIndexToPosition_3D:
  "\<not> is2D g \<Longrightarrow>
   cellIndexToPosition g i j k =
     v_add (leftBottomBackPos g)
       (v_multiply (addScalar (ofIndex (Idx3 i j k)) 0.5) (cellDimensions g))"
  by (simp add: cellIndexToPosition_def Vec3_def Idx3_def ofIndex_def addScalar_def
      multiplyScalar_def v_add_def v_multiply_def cellDimensions_def)

text \<open>
  C4. \<open>cellIndexToPosition\<close> should return the centre \<open>origin + (i + 0.5) * cellDims\<close>
  of the cell. On the 2D grid of the simulation (cell size 0.1, cells 1 deep) the centre of
  cell \<open>(0,0,0)\<close> is at \<open>z = 0.5\<close>; the code returns \<open>z = 0.05\<close>.
\<close>

theorem cellIndexToPosition_2D_z:
  "cellIndexToPosition (grid (newMPMSystem 0.1)) 0 0 0 = Vec3 (- 3.15) (- 3.15) 0.05 \<and>
   v_add (leftBottomBackPos (grid (newMPMSystem 0.1)))
     (v_multiply (addScalar (ofIndex (Idx3 0 0 0)) 0.5) (cellDimensions (grid (newMPMSystem 0.1))))
     = Vec3 (- 3.15) (- 3.15) 0.5"
  by (simp add: cellIndexToPosition_def Vec3_def Idx3_def ofIndex_def addScalar_def
      multiplyScalar_def v_add_def v_multiply_def cellDimensions_def is2D_def
      newMPMSystem_def newGrid_def GRID_SIZE_def HALF_GRID_SIZE_def)

section \<open>Validity of a cell index\<close>

lemma toFlatIndex_bounds:
  assumes "validGrid g" "inLattice g x y z"
  shows "0 \<le> toFlatIndex g x y z" "toFlatIndex g x y z < int (length (data g))"
proof -
  let ?sx = "ix (gsize g)" and ?sy = "iy (gsize g)" and ?sz = "iz (gsize g)"
  from assms have b: "0 \<le> x" "x \<le> ?sx - 1" "0 \<le> y" "y \<le> ?sy - 1" "0 \<le> z" "z \<le> ?sz - 1"
    and p: "0 < ?sx" "0 < ?sy" "0 < ?sz"
    by (simp_all add: validGrid_def inLattice_def)
  have 1: "y * ?sx \<le> (?sy - 1) * ?sx" using b p by (intro mult_right_mono) simp_all
  have 2: "z * (?sx * ?sy) \<le> (?sz - 1) * (?sx * ?sy)" using b p by (intro mult_right_mono) simp_all
  have 3: "0 \<le> y * ?sx" "0 \<le> z * (?sx * ?sy)" using b p by simp_all
  show "0 \<le> toFlatIndex g x y z"
    using b 3 by (simp add: toFlatIndex_def mult.assoc)
  have "x + y * ?sx + z * (?sx * ?sy) \<le> (?sx - 1) + (?sy - 1) * ?sx + (?sz - 1) * (?sx * ?sy)"
    using b 1 2 by linarith
  also have "\<dots> = ?sx * ?sy * ?sz - 1" by (simp add: algebra_simps)
  finally have "toFlatIndex g x y z < ?sx * ?sy * ?sz"
    by (simp add: toFlatIndex_def mult.assoc)
  moreover have "0 \<le> ?sx * ?sy * ?sz" using p by simp
  ultimately show "toFlatIndex g x y z < int (length (data g))"
    using assms(1) by (simp add: validGrid_def)
qed

lemma toFlatIndex_inj:
  assumes "inLattice g x y z" "inLattice g x' y' z'"
    and "toFlatIndex g x y z = toFlatIndex g x' y' z'"
  shows "x = x' \<and> y = y' \<and> z = z'"
proof -
  let ?sx = "ix (gsize g)" and ?sy = "iy (gsize g)"
  from assms(1,2) have b: "0 \<le> x" "x < ?sx" "0 \<le> y" "y < ?sy" "0 \<le> x'" "x' < ?sx" "0 \<le> y'" "y' < ?sy"
    by (simp_all add: inLattice_def)
  have e: "x + ?sx * (y + ?sy * z) = x' + ?sx * (y' + ?sy * z')"
    using assms(3) by (simp add: toFlatIndex_def algebra_simps)
  have "(x + ?sx * (y + ?sy * z)) mod ?sx = x" "(x' + ?sx * (y' + ?sy * z')) mod ?sx = x'"
    using b by simp_all
  with e have x: "x = x'" by metis
  have "(x + ?sx * (y + ?sy * z)) div ?sx = y + ?sy * z" "(x' + ?sx * (y' + ?sy * z')) div ?sx = y' + ?sy * z'"
    using b by simp_all
  with e have w: "y + ?sy * z = y' + ?sy * z'" by metis
  have "(y + ?sy * z) mod ?sy = y" "(y' + ?sy * z') mod ?sy = y'"
    using b by simp_all
  with w have y: "y = y'" by metis
  have "(y + ?sy * z) div ?sy = z" "(y' + ?sy * z') div ?sy = z'"
    using b by simp_all
  with w have "z = z'" by metis
  with x y show ?thesis by simp
qed

lemma edgeSystem_shape:
  "gsize (grid edgeSystem) = Idx3 64 64 1" "length (data (grid edgeSystem)) = 4096"
  "cellSize (grid edgeSystem) = 1" "leftBottomBackPos (grid edgeSystem) = Vec3 (- 32) (- 32) 0"
  "data (grid edgeSystem) = replicate 4096 newCell"
  by (simp_all add: edgeSystem_def newMPMSystem_def newGrid_def initData_def GRID_SIZE_def
      HALF_GRID_SIZE_def multiplyScalar_def Vec3_def Idx3_def)

lemma edgeParticle_index:
  "cellPositionToIndex (grid edgeSystem) (pos edgeParticle) = Idx3 0 1 0"
  by (simp add: cellPositionToIndex_def v_floor_def v_divide_def v_sub_def cellDimensions_def
      is2D_def edgeSystem_shape edgeParticle_def newParticle_def Vec3_def Idx3_def)

lemma edgeParticle_weight:
  "getWeight (grid edgeSystem) (pos edgeParticle) (Idx3 (- 1) 0 0) = 3 / 32"
  unfolding getWeight_def edgeParticle_index
  by (simp add: addVectors_def isValidCellIndex_def
      toFlatIndex_def cellIndexToPosition_def getH_def cellDimensions_def is2D_def
      edgeSystem_shape edgeParticle_def newParticle_def ofIndex_def addScalar_def
      multiplyScalar_def v_add_def v_sub_def v_divide_def getNQuadratic_def Vec3_def Idx3_def
      Let_def)

text \<open>
  The bodies of the neighbour loops at an index \<open>(-1, y, 0)\<close>: it is outside the lattice,
  it passes \<open>isValidCellIndex\<close>, and the cell read and written is the lattice cell
  \<open>(63, y - 1, 0)\<close>.
\<close>

lemma loop_bodies_at_wrapped_index:
  assumes "gsize g = Idx3 64 64 1" "length (data g) = 4096" "1 \<le> y" "y \<le> 64"
  shows "\<not> inLattice g (- 1) y 0 \<and> isValidCellIndex g (- 1) y 0 \<and> inLattice g 63 (y - 1) 0 \<and>
     toFlatIndex g (- 1) y 0 = toFlatIndex g 63 (y - 1) 0 \<and>
     getCell g (Idx3 63 (y - 1) 0) = Some (data g ! nat (64 * y - 1)) \<and>
     (- 1, 0, 0) \<in> set (neighbours g) \<and>
     (\<forall>p apic. p2gCell p apic (Idx3 0 y 0) (- 1, 0, 0) g =
        Some (putCell g (Idx3 63 (y - 1) 0)
          ((data g ! nat (64 * y - 1))
             \<lparr>Cell.mass := Cell.mass (data g ! nat (64 * y - 1)) +
                getWeight g (pos p) (Idx3 (- 1) 0 0) * mass p,
              mv := v_add (mv (data g ! nat (64 * y - 1)))
                (multiplyScalar
                   (v_add (applyMatrix3 (v_sub (cellIndexToPosition g (- 1) y 0) (pos p)) apic)
                      (vel p))
                   (getWeight g (pos p) (Idx3 (- 1) 0 0) * mass p))\<rparr>))) \<and>
     (\<forall>p. g2pCell g (Idx3 0 y 0) (- 1, 0, 0) p =
        Some (p\<lparr>vel := v_add (vel p)
                    (multiplyScalar (Cell.vel (data g ! nat (64 * y - 1)))
                       (getWeight g (pos p) (Idx3 (- 1) 0 0))),
                B := addInPlaceMatrix3 (B p)
                    (m_multiplyScalar
                       (outerMulVec3
                          (multiplyScalar (Cell.vel (data g ! nat (64 * y - 1)))
                             (getWeight g (pos p) (Idx3 (- 1) 0 0)))
                          (v_sub (cellIndexToPosition g (- 1) y 0) (pos p)))
                       (getWeight g (pos p) (Idx3 (- 1) 0 0)))\<rparr>))"
proof -
  have f: "toFlatIndex g (- 1) y 0 = 64 * y - 1" "toFlatIndex g 63 (y - 1) 0 = 64 * y - 1"
    using assms(1) by (simp_all add: toFlatIndex_def Idx3_def)
  have r: "0 \<le> 64 * y - 1" "64 * y - 1 < int (length (data g))"
    using assms(2-4) by simp_all
  have l: "\<not> inLattice g (- 1) y 0" "inLattice g 63 (y - 1) 0"
    using assms by (simp_all add: inLattice_def Idx3_def)
  have v: "isValidCellIndex g (- 1) y 0"
    using r by (simp add: isValidCellIndex_def f)
  have c: "getCell g (Idx3 63 (y - 1) 0) = Some (data g ! nat (64 * y - 1))"
    "getCell g (Idx3 (- 1) y 0) = Some (data g ! nat (64 * y - 1))"
    using r by (simp_all add: getCell_def Idx3_def f)
  have n: "(- 1, 0, 0) \<in> set (neighbours g)"
    by (simp add: neighbours_def loop3_def Let_def)
  have i: "addVectors (Idx3 0 y 0) (Idx3 (- 1) 0 0) = Idx3 (- 1) y 0"
    by (simp add: addVectors_def Idx3_def)
  have u: "putCell g (Idx3 (- 1) y 0) c' = putCell g (Idx3 63 (y - 1) 0) c'" for c'
    by (simp add: putCell_def Idx3_def f)
  have x: "ix (Idx3 (- 1) y 0) = - 1" "iy (Idx3 (- 1) y 0) = y" "iz (Idx3 (- 1) y 0) = 0"
    by (simp_all add: Idx3_def)
  have p: "p2gCell p apic (Idx3 0 y 0) (- 1, 0, 0) g =
        Some (putCell g (Idx3 63 (y - 1) 0)
          ((data g ! nat (64 * y - 1))
             \<lparr>Cell.mass := Cell.mass (data g ! nat (64 * y - 1)) +
                getWeight g (pos p) (Idx3 (- 1) 0 0) * mass p,
              mv := v_add (mv (data g ! nat (64 * y - 1)))
                (multiplyScalar
                   (v_add (applyMatrix3 (v_sub (cellIndexToPosition g (- 1) y 0) (pos p)) apic)
                      (vel p))
                   (getWeight g (pos p) (Idx3 (- 1) 0 0) * mass p))\<rparr>))" for p apic
    by (simp add: p2gCell_def Let_def i x v c(2) u)
  have q: "g2pCell g (Idx3 0 y 0) (- 1, 0, 0) p =
        Some (p\<lparr>vel := v_add (vel p)
                    (multiplyScalar (Cell.vel (data g ! nat (64 * y - 1)))
                       (getWeight g (pos p) (Idx3 (- 1) 0 0))),
                B := addInPlaceMatrix3 (B p)
                    (m_multiplyScalar
                       (outerMulVec3
                          (multiplyScalar (Cell.vel (data g ! nat (64 * y - 1)))
                             (getWeight g (pos p) (Idx3 (- 1) 0 0)))
                          (v_sub (cellIndexToPosition g (- 1) y 0) (pos p)))
                       (getWeight g (pos p) (Idx3 (- 1) 0 0)))\<rparr>)" for p
    by (simp add: g2pCell_def Let_def i x v c(2))
  from l v f c(1) n p q show ?thesis by simp
qed

text \<open>The weights and cell centres only depend on the shape of the grid.\<close>

lemma getWeight_data:
  assumes "length xs = length (data g)"
  shows "getWeight (g\<lparr>data := xs\<rparr>) q d = getWeight g q d"
proof -
  have "isValidCellIndex (g\<lparr>data := xs\<rparr>) i j k = isValidCellIndex g i j k" for i j k
    using assms by (simp add: isValidCellIndex_def toFlatIndex_def)
  moreover have "cellPositionToIndex (g\<lparr>data := xs\<rparr>) q = cellPositionToIndex g q"
    by (simp add: cellPositionToIndex_def cellDimensions_def is2D_def)
  moreover have "cellIndexToPosition (g\<lparr>data := xs\<rparr>) i j k = cellIndexToPosition g i j k" for i j k
    by (simp add: cellIndexToPosition_def)
  moreover have "getH (g\<lparr>data := xs\<rparr>) = getH g" "is2D (g\<lparr>data := xs\<rparr>) = is2D g"
    by (simp_all add: getH_def cellDimensions_def is2D_def)
  ultimately show ?thesis by (simp only: getWeight_def)
qed

lemma cellIndexToPosition_data:
  "cellIndexToPosition (g\<lparr>data := xs\<rparr>) i j k = cellIndexToPosition g i j k"
  by (simp add: cellIndexToPosition_def)

text \<open>
  \<open>_particleToGrid\<close> and \<open>_gridToParticle\<close> for one particle whose base cell is
  \<open>(0, 1, 0)\<close>, on any grid of the shape of the simulation's. Of the nine neighbour
  indices only \<open>(-1, 0, 0)\<close> is skipped; \<open>(-1, 1, 0)\<close> and \<open>(-1, 2, 0)\<close> are taken
  for the cells with flat index 63 and 127.
\<close>

lemma particleToGrid_wraps:
  assumes "gsize g = Idx3 64 64 1" "length (data g) = 4096"
    "cellPositionToIndex g (pos p) = Idx3 0 1 0"
  shows "\<exists>s'. particleToGrid \<lparr>grid = g, particles = [p]\<rparr> = Some s' \<and>
        (\<exists>c'. getCell (grid s') (Idx3 63 0 0) = Some c' \<and>
           Cell.mass c' = Cell.mass (data g ! 63) + getWeight g (pos p) (Idx3 (- 1) 0 0) * mass p \<and>
           mv c' = v_add (mv (data g ! 63))
                (multiplyScalar
                   (v_add (applyMatrix3 (v_sub (cellIndexToPosition g (- 1) 1 0) (pos p))
                      (m_multiply (B p) (invert (getDQuadratic g))))
                      (vel p))
                   (getWeight g (pos p) (Idx3 (- 1) 0 0) * mass p)))"
proof -
  have "data g \<noteq> []" using assms(2) by auto
  with assms show ?thesis
  by (simp add: particleToGrid_def p2gParticle_def neighbours_def is2D_def loop3_def upto.simps
      p2gCell_def addVectors_def isValidCellIndex_def toFlatIndex_def getCell_def putCell_def
      getWeight_data cellIndexToPosition_data Idx3_def Let_def)
qed

lemma gridToParticle_wraps:
  assumes "gsize g = Idx3 64 64 1" "length (data g) = 4096"
    "cellPositionToIndex g (pos p) = Idx3 0 1 0"
  shows "\<exists>s'. gridToParticle dt \<lparr>grid = g, particles = [p]\<rparr> = Some s' \<and> grid s' = g \<and>
        (\<exists>p'. particles s' = [p'] \<and>
           vel p' =
             v_add (v_add (v_add (v_add (v_add (v_add (v_add (v_add ZeroVector3
               (multiplyScalar (Cell.vel (data g ! 63)) (getWeight g (pos p) (Idx3 (- 1) 0 0))))
               (multiplyScalar (Cell.vel (data g ! 127)) (getWeight g (pos p) (Idx3 (- 1) 1 0))))
               (multiplyScalar (Cell.vel (data g ! 0)) (getWeight g (pos p) (Idx3 0 (- 1) 0))))
               (multiplyScalar (Cell.vel (data g ! 64)) (getWeight g (pos p) (Idx3 0 0 0))))
               (multiplyScalar (Cell.vel (data g ! 128)) (getWeight g (pos p) (Idx3 0 1 0))))
               (multiplyScalar (Cell.vel (data g ! 1)) (getWeight g (pos p) (Idx3 1 (- 1) 0))))
               (multiplyScalar (Cell.vel (data g ! 65)) (getWeight g (pos p) (Idx3 1 0 0))))
               (multiplyScalar (Cell.vel (data g ! 129)) (getWeight g (pos p) (Idx3 1 1 0))) \<and>
           pos p' = v_min (v_max (v_add (pos p) (multiplyScalar (vel p') dt)) (fst (getBounds g)))
                      (snd (getBounds g)))"
  using assms
  by (simp add: gridToParticle_def g2pParticle_def neighbours_def is2D_def loop3_def upto.simps
      g2pCell_def addVectors_def isValidCellIndex_def toFlatIndex_def getCell_def
      Idx3_def Let_def)

lemma edgeSystem_parts:
  "edgeSystem = \<lparr>grid = grid edgeSystem, particles = [edgeParticle]\<rparr>"
  "edgeSystemMoving = \<lparr>grid = grid edgeSystemMoving, particles = [edgeParticle]\<rparr>"
  by (simp_all add: edgeSystem_def edgeSystemMoving_def)

lemma edgeSystemMoving_grid:
  "grid edgeSystemMoving = (grid edgeSystem)\<lparr>data := (replicate 4096 newCell)[63 := movingCell]\<rparr>"
  by (simp add: edgeSystemMoving_def putCell_def toFlatIndex_def edgeSystem_shape Idx3_def)

lemma edgeSystemMoving_shape:
  "gsize (grid edgeSystemMoving) = Idx3 64 64 1" "length (data (grid edgeSystemMoving)) = 4096"
  "cellPositionToIndex (grid edgeSystemMoving) (pos edgeParticle) = Idx3 0 1 0"
  "getWeight (grid edgeSystemMoving) (pos edgeParticle) (Idx3 (- 1) 0 0) = 3 / 32"
  "getBounds (grid edgeSystemMoving) = (Vec3 (- 32) (- 32) 0, Vec3 32 32 1)"
proof -
  show "gsize (grid edgeSystemMoving) = Idx3 64 64 1" "length (data (grid edgeSystemMoving)) = 4096"
    by (simp_all add: edgeSystemMoving_grid edgeSystem_shape)
  have "cellPositionToIndex (grid edgeSystemMoving) q = cellPositionToIndex (grid edgeSystem) q" for q
    by (simp add: edgeSystemMoving_grid cellPositionToIndex_def cellDimensions_def is2D_def)
  then show "cellPositionToIndex (grid edgeSystemMoving) (pos edgeParticle) = Idx3 0 1 0"
    by (simp add: edgeParticle_index)
  show "getWeight (grid edgeSystemMoving) (pos edgeParticle) (Idx3 (- 1) 0 0) = 3 / 32"
    unfolding edgeSystemMoving_grid
    by (simp add: getWeight_data edgeSystem_shape edgeParticle_weight)
  show "getBounds (grid edgeSystemMoving) = (Vec3 (- 32) (- 32) 0, Vec3 32 32 1)"
    by (simp add: edgeSystemMoving_grid getBounds_def gridDimensions_def cellDimensions_def
        is2D_def edgeSystem_shape v_multiply_def v_add_def ofIndex_def Vec3_def Idx3_def)
qed

lemma edgeSystemMoving_cells:
  "data (grid edgeSystemMoving) ! 63 = movingCell" "data (grid edgeSystemMoving) ! 127 = newCell"
  "data (grid edgeSystemMoving) ! 0 = newCell" "data (grid edgeSystemMoving) ! 64 = newCell"
  "data (grid edgeSystemMoving) ! 128 = newCell" "data (grid edgeSystemMoving) ! 1 = newCell"
  "data (grid edgeSystemMoving) ! 65 = newCell" "data (grid edgeSystemMoving) ! 129 = newCell"
  by (simp_all add: edgeSystemMoving_grid)

text \<open>
  C5. \<open>isValidCellIndex\<close> only asks whether the flattened index is in range. On the
  64 by 64 by 1 grid of the simulation every index \<open>(-1, y, 0)\<close> with \<open>1 \<le> y \<le> 64\<close> is
  outside the lattice and valid: its flat index is that of the lattice cell
  \<open>(63, y - 1, 0)\<close>. So for a particle whose base cell is \<open>(0, 1, 0)\<close> the neighbour
  loops do not skip the neighbour \<open>(-1, 1, 0)\<close>: \<open>_particleToGrid\<close> returns with the
  particle's weighted mass and momentum added to the lattice cell \<open>(63, 0, 0)\<close>, and
  \<open>_gridToParticle\<close> returns with the weighted velocity of that cell added to the
  particle's velocity, which then moves the particle.
\<close>

theorem isValidCellIndex_flat_only:
  assumes "gsize g = Idx3 64 64 1" "length (data g) = 4096" "1 \<le> y" "y \<le> 64"
    and "cellPositionToIndex g (pos p) = Idx3 0 1 0"
  shows "\<not> inLattice g (- 1) y 0 \<and> isValidCellIndex g (- 1) y 0 \<and> inLattice g 63 (y - 1) 0 \<and>
     toFlatIndex g (- 1) y 0 = toFlatIndex g 63 (y - 1) 0 \<and>
     (\<exists>s'. particleToGrid \<lparr>grid = g, particles = [p]\<rparr> = Some s' \<and>
        (\<exists>c'. getCell (grid s') (Idx3 63 0 0) = Some c' \<and>
           Cell.mass c' = Cell.mass (data g ! 63) + getWeight g (pos p) (Idx3 (- 1) 0 0) * mass p \<and>
           mv c' = v_add (mv (data g ! 63))
                (multiplyScalar
                   (v_add (applyMatrix3 (v_sub (cellIndexToPosition g (- 1) 1 0) (pos p))
                      (m_multiply (B p) (invert (getDQuadratic g))))
                      (vel p))
                   (getWeight g (pos p) (Idx3 (- 1) 0 0) * mass p)))) \<and>
     (\<exists>s'. gridToParticle dt \<lparr>grid = g, particles = [p]\<rparr> = Some s' \<and> grid s' = g \<and>
        (\<exists>p'. particles s' = [p'] \<and>
           vel p' =
             v_add (v_add (v_add (v_add (v_add (v_add (v_add (v_add ZeroVector3
               (multiplyScalar (Cell.vel (data g ! 63)) (getWeight g (pos p) (Idx3 (- 1) 0 0))))
               (multiplyScalar (Cell.vel (data g ! 127)) (getWeight g (pos p) (Idx3 (- 1) 1 0))))
               (multiplyScalar (Cell.vel (data g ! 0)) (getWeight g (pos p) (Idx3 0 (- 1) 0))))
               (multiplyScalar (Cell.vel (data g ! 64)) (getWeight g (pos p) (Idx3 0 0 0))))
               (multiplyScalar (Cell.vel (data g ! 128)) (getWeight g (pos p) (Idx3 0 1 0))))
               (multiplyScalar (Cell.vel (data g ! 1)) (getWeight g (pos p) (Idx3 1 (- 1) 0))))
               (multiplyScalar (Cell.vel (data g ! 65)) (getWeight g (pos p) (Idx3 1 0 0))))
               (multiplyScalar (Cell.vel (data g ! 129)) (getWeight g (pos p) (Idx3 1 1 0))) \<and>
           pos p' = v_min (v_max (v_add (pos p) (multiplyScalar (vel p') dt)) (fst (getBounds g)))
                      (snd (getBounds g))))"
proof -
  from loop_bodies_at_wrapped_index [OF assms(1-4)]
  have "\<not> inLattice g (- 1) y 0" "isValidCellIndex g (- 1) y 0" "inLattice g 63 (y - 1) 0"
    "toFlatIndex g (- 1) y 0 = toFlatIndex g 63 (y - 1) 0"
    by blast+
  with particleToGrid_wraps [OF assms(1,2,5)] gridToParticle_wraps [OF assms(1,2,5), of dt]
  show ?thesis by blast
qed

theorem isValidCellIndex_flat_only_witness:
  "gsize (grid edgeSystem) = Idx3 64 64 1 \<and> length (data (grid edgeSystem)) = 4096 \<and>
   cellPositionToIndex (grid edgeSystem) (pos edgeParticle) = Idx3 0 1 0 \<and>
   \<not> inLattice (grid edgeSystem) (- 1) 1 0 \<and> isValidCellIndex (grid edgeSystem) (- 1) 1 0 \<and>
   (\<exists>s'. particleToGrid edgeSystem = Some s' \<and>
      (\<exists>c'. getCell (grid s') (Idx3 63 0 0) = Some c' \<and> Cell.mass c' = 3 / 32 \<and>
            mv c' = Vec3 (3 / 32) 0 0)) \<and>
   (\<exists>s'. gridToParticle 1 edgeSystemMoving = Some s' \<and>
      (\<exists>p'. particles s' = [p'] \<and> vel p' = Vec3 (3 / 32) 0 0 \<and>
            pos p' = Vec3 (- 31.40625) (- 30.5) 0.5))"
proof -
  have y: "(1::int) \<le> 1" "(1::int) \<le> 64" by simp_all
  note a = isValidCellIndex_flat_only [OF edgeSystem_shape(1,2) y edgeParticle_index]
  note b = isValidCellIndex_flat_only [OF edgeSystemMoving_shape(1,2) y edgeSystemMoving_shape(3), of 1]
  from a have v: "\<not> inLattice (grid edgeSystem) (- 1) 1 0" "isValidCellIndex (grid edgeSystem) (- 1) 1 0"
    by blast+
  note a5 = a [THEN conjunct2, THEN conjunct2, THEN conjunct2, THEN conjunct2, THEN conjunct1]
  note b6 = b [THEN conjunct2, THEN conjunct2, THEN conjunct2, THEN conjunct2, THEN conjunct2]
  from a5 obtain s1 c1 where 1: "particleToGrid edgeSystem = Some s1"
    "getCell (grid s1) (Idx3 63 0 0) = Some c1"
    "Cell.mass c1 = 3 / 32" "mv c1 = Vec3 (3 / 32) 0 0"
    unfolding edgeSystem_parts(1) [symmetric] edgeParticle_weight
    by (auto simp: edgeSystem_shape(5) newCell_def edgeParticle_def newParticle_def
        ZeroVector3_def ZeroMatrix3_def m_multiply_def applyMatrix3_def Mat3_def v_add_def
        multiplyScalar_def Vec3_def)
  from b6 obtain s2 p2 where 2: "gridToParticle 1 edgeSystemMoving = Some s2" "particles s2 = [p2]"
    "vel p2 = Vec3 (3 / 32) 0 0" "pos p2 = Vec3 (- 31.40625) (- 30.5) 0.5"
    unfolding edgeSystem_parts(2) [symmetric] edgeSystemMoving_shape(4,5) edgeSystemMoving_cells
    by (auto simp: newCell_def movingCell_def edgeParticle_def newParticle_def
        ZeroVector3_def v_add_def v_min_def v_max_def multiplyScalar_def Vec3_def)
  from v 1 2 edgeSystem_shape(1,2) edgeParticle_index show ?thesis by blast
qed

text \<open>
  The whole of \<open>_particleToGrid\<close> on that state: the particle sits at the left edge, and
  the cell \<open>(63, 0, 0)\<close> at the right edge of the row below receives mass \<open>3/32\<close>.
\<close>

lemma particleToGrid_at_edge:
  "\<exists>s'. particleToGrid edgeSystem = Some s' \<and>
      (\<exists>c. getCell (grid s') (Idx3 63 0 0) = Some c \<and> Cell.mass c = 3 / 32)"
  by (simp add: edgeSystem_def edgeParticle_def newMPMSystem_def newGrid_def particleToGrid_def
      p2gParticle_def neighbours_def loop3_def upto.simps p2gCell_def getCell_def putCell_def
      newParticle_def newCell_def ZeroVector3_def ZeroMatrix3_def getWeight_def
      cellPositionToIndex_def v_floor_def v_divide_def v_sub_def cellDimensions_def is2D_def
      multiplyScalar_def Vec3_def Idx3_def GRID_SIZE_def HALF_GRID_SIZE_def addVectors_def
      isValidCellIndex_def toFlatIndex_def initData_def cellIndexToPosition_def getH_def
      ofIndex_def addScalar_def v_add_def getNQuadratic_def Let_def)

section \<open>What the phases preserve\<close>

lemma sameShape_refl: "sameShape g g"
  by (simp add: sameShape_def)

lemma sameShape_trans: "sameShape g g' \<Longrightarrow> sameShape g' g'' \<Longrightarrow> sameShape g g''"
  by (simp add: sameShape_def)

lemma sameShape_putCell: "sameShape g (putCell g idx c)"
  by (simp add: sameShape_def putCell_def)

lemma sameShape_resetCells: "sameShape g (resetCells g)"
  by (simp add: sameShape_def resetCells_def)

lemma sameShape_validGrid: "sameShape g g' \<Longrightarrow> validGrid g \<Longrightarrow> validGrid g'"
  by (simp add: sameShape_def validGrid_def)

lemma sameShape_getBounds: "sameShape g g' \<Longrightarrow> getBounds g' = getBounds g"
  by (simp add: sameShape_def getBounds_def gridDimensions_def cellDimensions_def is2D_def)

lemma foldOpt_total:
  assumes "\<And>a s. P s \<Longrightarrow> \<exists>s'. f a s = Some s' \<and> P s'" and "P s"
  shows "\<exists>s'. foldOpt f xs s = Some s' \<and> P s'"
  using assms(2)
proof (induction xs arbitrary: s)
  case Nil
  then show ?case by simp
next
  case (Cons a xs)
  from assms(1) [OF Cons.prems] obtain s1 where s1: "f a s = Some s1" "P s1" by blast
  from Cons.IH [OF s1(2)] s1(1) show ?case by simp
qed

lemma foldOpt_invariant:
  assumes "\<And>a s s'. P s \<Longrightarrow> f a s = Some s' \<Longrightarrow> P s'" and "P s" and "foldOpt f xs s = Some s'"
  shows "P s'"
  using assms(2,3)
proof (induction xs arbitrary: s)
  case Nil
  then show ?case by simp
next
  case (Cons a xs)
  then show ?case using assms(1) by (auto split: option.splits)
qed

lemma getCell_valid:
  "isValidCellIndex g (ix idx) (iy idx) (iz idx) \<Longrightarrow>
   getCell g idx = Some (data g ! nat (toFlatIndex g (ix idx) (iy idx) (iz idx)))"
  by (simp add: isValidCellIndex_def getCell_def Let_def)

lemma p2gCell_total: "\<exists>g'. p2gCell p apic gridIdx t g = Some g' \<and> sameShape g g'"
  by (cases t) (auto simp: p2gCell_def Let_def getCell_valid sameShape_refl sameShape_putCell)

lemma p2gParticle_total:
  "\<exists>p' g'. p2gParticle Dinv p g = Some (p', g') \<and> sameShape g g' \<and>
     active p' = active p \<and> mass p' = mass p \<and> pos p' = pos p \<and> vel p' = vel p"
proof -
  let ?p = "p\<lparr>B := m_multiply (B p) Dinv\<rparr>"
  have "\<exists>g'. foldOpt (p2gCell ?p (m_multiply (B p) Dinv) (cellPositionToIndex g (pos p)))
          (neighbours g) g = Some g' \<and> sameShape g g'"
    by (rule foldOpt_total) (use p2gCell_total sameShape_trans sameShape_refl in blast)+
  then show ?thesis by (auto simp: p2gParticle_def Let_def)
qed

lemma p2gLoop_total:
  "\<exists>ps' g'. p2gLoop Dinv ps g = Some (ps', g') \<and> sameShape g g' \<and>
     map active ps' = map active ps \<and> map mass ps' = map mass ps \<and>
     map pos ps' = map pos ps \<and> map vel ps' = map vel ps"
proof (induction ps arbitrary: g)
  case Nil
  then show ?case by (simp add: sameShape_refl)
next
  case (Cons p ps)
  obtain p' g1 where 1: "p2gParticle Dinv p g = Some (p', g1)" "sameShape g g1"
    "active p' = active p" "mass p' = mass p" "pos p' = pos p" "vel p' = vel p"
    using p2gParticle_total by blast
  obtain ps' g2 where 2: "p2gLoop Dinv ps g1 = Some (ps', g2)" "sameShape g1 g2"
    "map active ps' = map active ps" "map mass ps' = map mass ps"
    "map pos ps' = map pos ps" "map vel ps' = map vel ps"
    using Cons.IH by blast
  show ?case using 1 2 by (simp add: sameShape_trans [OF 1(2) 2(2)])
qed

lemma particleToGrid_total:
  "\<exists>s'. particleToGrid s = Some s' \<and> sameShape (grid s) (grid s') \<and>
     map active (particles s') = map active (particles s) \<and>
     map mass (particles s') = map mass (particles s) \<and>
     map pos (particles s') = map pos (particles s)"
proof -
  obtain ps' g' where "p2gLoop (invert (getDQuadratic (grid s))) (particles s) (grid s) = Some (ps', g')"
    "sameShape (grid s) g'" "map active ps' = map active (particles s)"
    "map mass ps' = map mass (particles s)" "map pos ps' = map pos (particles s)"
    using p2gLoop_total by blast
  then show ?thesis by (simp add: particleToGrid_def Let_def)
qed

lemma g2pCell_total:
  "\<exists>p'. g2pCell g gridIdx t p = Some p' \<and> active p' = active p \<and> mass p' = mass p \<and> pos p' = pos p"
  by (cases t) (auto simp: g2pCell_def Let_def getCell_valid)

lemma g2pFold_total:
  "\<exists>p'. foldOpt (g2pCell g gridIdx) ts p = Some p' \<and>
     active p' = active p \<and> mass p' = mass p \<and> pos p' = pos p"
proof -
  have "\<exists>p'. foldOpt (g2pCell g gridIdx) ts p = Some p' \<and>
     (active p' = active p \<and> mass p' = mass p \<and> pos p' = pos p)"
    by (rule foldOpt_total [where P = "\<lambda>q. active q = active p \<and> mass q = mass p \<and> pos q = pos p"])
       (use g2pCell_total in metis, simp)
  then show ?thesis .
qed

lemma clamp_in_bounds:
  assumes "validGrid g"
  shows "containsPoint (getBounds g) (v_min (v_max q (fst (getBounds g))) (snd (getBounds g)))"
proof -
  have "0 \<le> vx (gridDimensions g)" "0 \<le> vy (gridDimensions g)" "0 \<le> vz (gridDimensions g)"
    using assms
    by (simp_all add: validGrid_def gridDimensions_def cellDimensions_def
        v_multiply_def ofIndex_def Vec3_def)
  then show ?thesis
    by (simp add: containsPoint_def getBounds_def v_min_def v_max_def v_add_def Vec3_def)
qed

lemma g2pParticle_total:
  "\<exists>p'. g2pParticle dt g p = Some p' \<and> active p' = active p \<and> mass p' = mass p \<and>
     (validGrid g \<longrightarrow> containsPoint (getBounds g) (pos p'))"
proof -
  let ?p0 = "p\<lparr>vel := ZeroVector3, B := ZeroMatrix3\<rparr>"
  obtain p1 where p1: "foldOpt (g2pCell g (cellPositionToIndex g (pos ?p0))) (neighbours g) ?p0 = Some p1"
    "active p1 = active ?p0" "mass p1 = mass ?p0"
    using g2pFold_total by blast
  with clamp_in_bounds show ?thesis by (simp add: g2pParticle_def Let_def)
qed

lemma g2pLoop_total:
  "\<exists>ps'. g2pLoop dt g ps = Some ps' \<and> map active ps' = map active ps \<and>
     map mass ps' = map mass ps \<and>
     (validGrid g \<longrightarrow> (\<forall>p \<in> set ps'. containsPoint (getBounds g) (pos p)))"
proof (induction ps)
  case Nil
  then show ?case by simp
next
  case (Cons p ps)
  obtain p' where 1: "g2pParticle dt g p = Some p'" "active p' = active p" "mass p' = mass p"
    "validGrid g \<longrightarrow> containsPoint (getBounds g) (pos p')"
    using g2pParticle_total by blast
  from Cons.IH obtain ps' where 2: "g2pLoop dt g ps = Some ps'" "map active ps' = map active ps"
    "map mass ps' = map mass ps" "validGrid g \<longrightarrow> (\<forall>p \<in> set ps'. containsPoint (getBounds g) (pos p))"
    by blast
  show ?case using 1 2 by simp
qed

section \<open>The grid update\<close>

lemma cellAfterUpdate_empty:
  "Cell.mass c \<le> 0 \<Longrightarrow>
   cellAfterUpdate dt g (x, y, z) c =
     \<lparr>Cell.mass = 0, mv = ZeroVector3, vel = ZeroVector3, force = ZeroVector3\<rparr>"
  by (simp add: cellAfterUpdate_def clear_def)

lemma cellAfterUpdate_massive:
  assumes "0 < Cell.mass c"
  shows "Cell.mass (cellAfterUpdate dt g (x, y, z) c) = Cell.mass c"
    and "mv (cellAfterUpdate dt g (x, y, z) c) = mv c"
    and "force (cellAfterUpdate dt g (x, y, z) c) = force c"
    and "vx (Cell.vel (cellAfterUpdate dt g (x, y, z) c)) =
           (if x < 2 \<or> ix (gsize g) - 2 \<le> x then 0
            else vx (mv c) / Cell.mass c + dt * (vx (force c) / Cell.mass c + 0))"
    and "vy (Cell.vel (cellAfterUpdate dt g (x, y, z) c)) =
           (if y < 2 \<or> iy (gsize g) - 2 \<le> y then 0
            else vy (mv c) / Cell.mass c + dt * (vy (force c) / Cell.mass c + (- 9.8)))"
    and "vz (Cell.vel (cellAfterUpdate dt g (x, y, z) c)) =
           (if \<not> is2D g \<and> (z < 2 \<or> iz (gsize g) - 2 \<le> z) then 0
            else vz (mv c) / Cell.mass c + dt * (vz (force c) / Cell.mass c + 0))"
  using assms
  by (simp_all add: cellAfterUpdate_def Let_def divideScalar_def multiplyScalar_def v_add_def
      Vec3_def GRAVITY_def algebra_simps)

lemma updateCell_eq:
  "inRange g t \<Longrightarrow>
   updateCell dt t g = Some (g\<lparr>data := (data g)[flatOf g t := cellAfterUpdate dt g t (data g ! flatOf g t)]\<rparr>)"
  by (cases t)
    (simp add: updateCell_def cellAfterUpdate_def inRange_def flatOf_def getCell_def putCell_def
      Let_def Idx3_def)

lemma sameShape_flatOf: "sameShape g g' \<Longrightarrow> flatOf g' = flatOf g"
  by (auto simp: sameShape_def flatOf_def toFlatIndex_def)

lemma sameShape_inRange: "sameShape g g' \<Longrightarrow> inRange g' = inRange g"
  by (auto simp: sameShape_def inRange_def toFlatIndex_def)

lemma sameShape_cellAfterUpdate: "sameShape g g' \<Longrightarrow> cellAfterUpdate dt g' = cellAfterUpdate dt g"
  by (auto simp: sameShape_def cellAfterUpdate_def is2D_def fun_eq_iff)

lemma updateCells_fold:
  assumes "\<forall>t \<in> set ts. inRange g t" and "distinct (map (flatOf g) ts)"
  shows "\<exists>g'. foldOpt (updateCell dt) ts g = Some g' \<and> sameShape g g' \<and>
           (\<forall>t \<in> set ts. data g' ! flatOf g t = cellAfterUpdate dt g t (data g ! flatOf g t)) \<and>
           (\<forall>k. k \<notin> flatOf g ` set ts \<longrightarrow> data g' ! k = data g ! k)"
  using assms
proof (induction ts arbitrary: g)
  case Nil
  then show ?case by (simp add: sameShape_refl)
next
  case (Cons t ts)
  let ?g1 = "g\<lparr>data := (data g)[flatOf g t := cellAfterUpdate dt g t (data g ! flatOf g t)]\<rparr>"
  have t: "inRange g t" using Cons.prems by simp
  have step: "updateCell dt t g = Some ?g1" using t by (rule updateCell_eq)
  have sh: "sameShape g ?g1" by (simp add: sameShape_def)
  have lt: "flatOf g t < length (data g)"
    using t by (cases t) (auto simp: inRange_def flatOf_def)
  have "\<forall>t \<in> set ts. inRange ?g1 t" "distinct (map (flatOf ?g1) ts)"
    using Cons.prems by (simp_all add: sameShape_inRange [OF sh] sameShape_flatOf [OF sh])
  from Cons.IH [OF this] obtain g' where g':
    "foldOpt (updateCell dt) ts ?g1 = Some g'" "sameShape ?g1 g'"
    "\<forall>u \<in> set ts. data g' ! flatOf g u = cellAfterUpdate dt g u (data ?g1 ! flatOf g u)"
    "\<forall>k. k \<notin> flatOf g ` set ts \<longrightarrow> data g' ! k = data ?g1 ! k"
    by (auto simp: sameShape_inRange [OF sh] sameShape_flatOf [OF sh] sameShape_cellAfterUpdate [OF sh])
  have nin: "flatOf g t \<notin> flatOf g ` set ts" using Cons.prems(2) by simp
  have "data g' ! flatOf g t = cellAfterUpdate dt g t (data g ! flatOf g t)"
    using g'(4) nin lt by simp
  moreover have "data g' ! flatOf g u = cellAfterUpdate dt g u (data g ! flatOf g u)" if "u \<in> set ts" for u
  proof -
    have "flatOf g u \<noteq> flatOf g t" using nin that by (metis imageI)
    then show ?thesis using g'(3) that by simp
  qed
  moreover have "data g' ! k = data g ! k" if "k \<notin> flatOf g ` set (t # ts)" for k
    using g'(4) that by simp
  ultimately show ?case
    using step g'(1) sameShape_trans [OF sh g'(2)] by auto
qed

lemma set_loop3:
  "set (loop3 xlo xhi ylo yhi zlo zhi) =
     {(x, y, z). xlo \<le> x \<and> x \<le> xhi \<and> ylo \<le> y \<and> y \<le> yhi \<and> zlo \<le> z \<and> z \<le> zhi}"
  by (auto simp: loop3_def)

lemma distinct_loop3: "distinct (loop3 xlo xhi ylo yhi zlo zhi)"
  by (simp add: loop3_def distinct_product)

lemma lattice_loop:
  "(x, y, z) \<in> set (loop3 0 (ix (gsize g) - 1) 0 (iy (gsize g) - 1) 0 (iz (gsize g) - 1))
     \<longleftrightarrow> inLattice g x y z"
  by (auto simp: set_loop3 inLattice_def)

lemma updateGridCells_result:
  assumes "validGrid g"
  shows "\<exists>g'. updateGridCells dt g = Some g' \<and> sameShape g g' \<and>
           (\<forall>x y z. inLattice g x y z \<longrightarrow>
              data g' ! nat (toFlatIndex g x y z) =
                cellAfterUpdate dt g (x, y, z) (data g ! nat (toFlatIndex g x y z)))"
proof -
  let ?ts = "loop3 0 (ix (gsize g) - 1) 0 (iy (gsize g) - 1) 0 (iz (gsize g) - 1)"
  have r: "\<forall>t \<in> set ?ts. inRange g t"
  proof
    fix t assume "t \<in> set ?ts"
    moreover obtain x y z where t: "t = (x, y, z)" by (cases t)
    ultimately have "inLattice g x y z" by (simp only: lattice_loop)
    then show "inRange g t"
      using toFlatIndex_bounds [OF assms] by (simp add: inRange_def t)
  qed
  have "inj_on (flatOf g) (set ?ts)"
  proof (rule inj_onI)
    fix t u assume tu: "t \<in> set ?ts" "u \<in> set ?ts" "flatOf g t = flatOf g u"
    obtain x y z where t: "t = (x, y, z)" by (cases t)
    obtain x' y' z' where u: "u = (x', y', z')" by (cases u)
    have l: "inLattice g x y z" "inLattice g x' y' z'" using tu t u by (simp_all only: lattice_loop)
    have "toFlatIndex g x y z = toFlatIndex g x' y' z'"
      using tu(3) toFlatIndex_bounds(1) [OF assms l(1)] toFlatIndex_bounds(1) [OF assms l(2)]
      by (simp add: flatOf_def t u)
    from toFlatIndex_inj [OF l this] show "t = u" by (simp add: t u)
  qed
  then have d: "distinct (map (flatOf g) ?ts)"
    by (simp add: distinct_map distinct_loop3)
  from updateCells_fold [OF r d, of dt] obtain g' where
    "foldOpt (updateCell dt) ?ts g = Some g'" "sameShape g g'"
    "\<forall>t \<in> set ?ts. data g' ! flatOf g t = cellAfterUpdate dt g t (data g ! flatOf g t)"
    by blast
  then show ?thesis
    by (auto simp: updateGridCells_def lattice_loop [symmetric] flatOf_def)
qed

lemma updateCell_shape: "updateCell dt t g = Some g' \<Longrightarrow> sameShape g g'"
  by (cases t)
    (auto simp: updateCell_def Let_def sameShape_putCell split: option.splits if_splits)

lemma updateGridCells_shape:
  assumes "updateGridCells dt g = Some g'"
  shows "sameShape g g'"
proof (rule foldOpt_invariant [where P = "sameShape g" and f = "updateCell dt"])
  show "sameShape g g" by (rule sameShape_refl)
  show "foldOpt (updateCell dt)
          (loop3 0 (ix (gsize g) - 1) 0 (iy (gsize g) - 1) 0 (iz (gsize g) - 1)) g = Some g'"
    using assms by (simp add: updateGridCells_def)
  show "sameShape g s'" if "sameShape g s" "updateCell dt a s = Some s'" for a s s'
    using that updateCell_shape sameShape_trans by blast
qed

lemma smallSystem_valid: "validGrid (grid smallSystem)"
  by (simp add: smallSystem_def validGrid_def putCell_def newGrid_def initData_def Idx3_def)

lemma smallSystem_cells:
  "getCell (grid smallSystem) (Idx3 2 2 0) = Some massiveCell"
  "getCell (grid smallSystem) (Idx3 1 2 0) = Some massiveCell"
  "getCell (grid smallSystem) (Idx3 0 0 0) = Some newCell"
  by (simp_all add: smallSystem_def getCell_def putCell_def newGrid_def initData_def Idx3_def
      toFlatIndex_def)

text \<open>
  C6. The grid-update phase on a well-formed grid returns, leaves the particles alone, and
  at every lattice position \<open>(x, y, z)\<close>: a cell of mass \<open>\<le> 0\<close> ends up cleared (mass,
  momentum, velocity and force zero); a cell of mass \<open>> 0\<close> keeps mass, momentum and force,
  and each component of its velocity is \<open>momentum / mass + dt * (force / mass + gravity)\<close>
  with gravity \<open>(0, -9.8, 0)\<close>, except that the component is 0 on every axis where the
  index is \<open>< 2\<close> or \<open>\<ge> size - 2\<close>; the z axis is exempt from that when the grid is 2D.
\<close>

theorem updateGrid_cells:
  assumes "validGrid (grid s)"
  shows "\<exists>s'. updateGrid dt s = Some s' \<and> particles s' = particles s \<and>
     (\<forall>x y z. inLattice (grid s) x y z \<longrightarrow>
        (\<exists>c c'. getCell (grid s) (Idx3 x y z) = Some c \<and>
                 getCell (grid s') (Idx3 x y z) = Some c' \<and>
           (Cell.mass c \<le> 0 \<longrightarrow>
              c' = \<lparr>Cell.mass = 0, mv = ZeroVector3, vel = ZeroVector3, force = ZeroVector3\<rparr>) \<and>
           (0 < Cell.mass c \<longrightarrow>
              Cell.mass c' = Cell.mass c \<and> mv c' = mv c \<and> force c' = force c \<and>
              vx (Cell.vel c') =
                (if x < 2 \<or> ix (gsize (grid s)) - 2 \<le> x then 0
                 else vx (mv c) / Cell.mass c + dt * (vx (force c) / Cell.mass c + 0)) \<and>
              vy (Cell.vel c') =
                (if y < 2 \<or> iy (gsize (grid s)) - 2 \<le> y then 0
                 else vy (mv c) / Cell.mass c + dt * (vy (force c) / Cell.mass c + (- 9.8))) \<and>
              vz (Cell.vel c') =
                (if \<not> is2D (grid s) \<and> (z < 2 \<or> iz (gsize (grid s)) - 2 \<le> z) then 0
                 else vz (mv c) / Cell.mass c + dt * (vz (force c) / Cell.mass c + 0)))))"
proof -
  let ?g = "grid s"
  obtain g' where g': "updateGridCells dt ?g = Some g'" "sameShape ?g g'"
    and cells: "\<And>x y z. inLattice ?g x y z \<Longrightarrow>
        data g' ! nat (toFlatIndex ?g x y z) =
          cellAfterUpdate dt ?g (x, y, z) (data ?g ! nat (toFlatIndex ?g x y z))"
    using updateGridCells_result [OF assms, of dt] by blast
  have "\<exists>c c'. getCell ?g (Idx3 x y z) = Some c \<and> getCell g' (Idx3 x y z) = Some c' \<and>
           (Cell.mass c \<le> 0 \<longrightarrow>
              c' = \<lparr>Cell.mass = 0, mv = ZeroVector3, vel = ZeroVector3, force = ZeroVector3\<rparr>) \<and>
           (0 < Cell.mass c \<longrightarrow>
              Cell.mass c' = Cell.mass c \<and> mv c' = mv c \<and> force c' = force c \<and>
              vx (Cell.vel c') =
                (if x < 2 \<or> ix (gsize ?g) - 2 \<le> x then 0
                 else vx (mv c) / Cell.mass c + dt * (vx (force c) / Cell.mass c + 0)) \<and>
              vy (Cell.vel c') =
                (if y < 2 \<or> iy (gsize ?g) - 2 \<le> y then 0
                 else vy (mv c) / Cell.mass c + dt * (vy (force c) / Cell.mass c + (- 9.8))) \<and>
              vz (Cell.vel c') =
                (if \<not> is2D ?g \<and> (z < 2 \<or> iz (gsize ?g) - 2 \<le> z) then 0
                 else vz (mv c) / Cell.mass c + dt * (vz (force c) / Cell.mass c + 0)))"
    if l: "inLattice ?g x y z" for x y z
  proof -
    let ?k = "toFlatIndex ?g x y z"
    let ?c = "data ?g ! nat ?k"
    have b: "0 \<le> ?k" "?k < int (length (data ?g))"
      using toFlatIndex_bounds [OF assms l] by simp_all
    have k': "toFlatIndex g' x y z = ?k" "length (data g') = length (data ?g)"
      using g'(2) by (simp_all add: sameShape_def toFlatIndex_def)
    have 1: "getCell ?g (Idx3 x y z) = Some ?c"
      using b by (simp add: getCell_def Idx3_def)
    have 2: "getCell g' (Idx3 x y z) = Some (cellAfterUpdate dt ?g (x, y, z) ?c)"
      using b k' cells [OF l] by (simp add: getCell_def Idx3_def)
    show ?thesis
      unfolding 1 2
      using cellAfterUpdate_empty [of ?c dt ?g x y z] cellAfterUpdate_massive [of ?c dt ?g x y z]
      by simp
  qed
  with g'(1) show ?thesis by (simp add: updateGrid_def)
qed

theorem updateGrid_cells_witness:
  "validGrid (grid smallSystem) \<and>
   (\<exists>s'. updateGrid 1 smallSystem = Some s' \<and>
      (\<exists>c. getCell (grid s') (Idx3 2 2 0) = Some c \<and>
           vx (Cell.vel c) = 2 \<and> vy (Cell.vel c) = - 8.8 \<and> vz (Cell.vel c) = 0) \<and>
      (\<exists>c. getCell (grid s') (Idx3 1 2 0) = Some c \<and>
           vx (Cell.vel c) = 0 \<and> vy (Cell.vel c) = - 8.8 \<and> vz (Cell.vel c) = 0) \<and>
      getCell (grid s') (Idx3 0 0 0) =
        Some \<lparr>Cell.mass = 0, mv = ZeroVector3, vel = ZeroVector3, force = ZeroVector3\<rparr>)"
proof -
  have sz: "gsize (grid smallSystem) = Idx3 5 5 1"
    by (simp add: smallSystem_def putCell_def newGrid_def)
  have l: "inLattice (grid smallSystem) 2 2 0" "inLattice (grid smallSystem) 1 2 0"
    "inLattice (grid smallSystem) 0 0 0"
    by (simp_all add: inLattice_def sz Idx3_def)
  from updateGrid_cells [OF smallSystem_valid, of 1] obtain s' where
    s': "updateGrid 1 smallSystem = Some s'"
    and c: "\<And>x y z. inLattice (grid smallSystem) x y z \<Longrightarrow>
        (\<exists>c c'. getCell (grid smallSystem) (Idx3 x y z) = Some c \<and>
                 getCell (grid s') (Idx3 x y z) = Some c' \<and>
           (Cell.mass c \<le> 0 \<longrightarrow>
              c' = \<lparr>Cell.mass = 0, mv = ZeroVector3, vel = ZeroVector3, force = ZeroVector3\<rparr>) \<and>
           (0 < Cell.mass c \<longrightarrow>
              Cell.mass c' = Cell.mass c \<and> mv c' = mv c \<and> force c' = force c \<and>
              vx (Cell.vel c') =
                (if x < 2 \<or> ix (gsize (grid smallSystem)) - 2 \<le> x then 0
                 else vx (mv c) / Cell.mass c + 1 * (vx (force c) / Cell.mass c + 0)) \<and>
              vy (Cell.vel c') =
                (if y < 2 \<or> iy (gsize (grid smallSystem)) - 2 \<le> y then 0
                 else vy (mv c) / Cell.mass c + 1 * (vy (force c) / Cell.mass c + (- 9.8))) \<and>
              vz (Cell.vel c') =
                (if \<not> is2D (grid smallSystem) \<and> (z < 2 \<or> iz (gsize (grid smallSystem)) - 2 \<le> z) then 0
                 else vz (mv c) / Cell.mass c + 1 * (vz (force c) / Cell.mass c + 0))))"
    by blast
  have a: "\<exists>c. getCell (grid s') (Idx3 2 2 0) = Some c \<and>
           vx (Cell.vel c) = 2 \<and> vy (Cell.vel c) = - 8.8 \<and> vz (Cell.vel c) = 0"
    using c [OF l(1)]
    by (auto simp: smallSystem_cells sz is2D_def massiveCell_def Vec3_def ZeroVector3_def Idx3_def [of 5])
  have b: "\<exists>c. getCell (grid s') (Idx3 1 2 0) = Some c \<and>
           vx (Cell.vel c) = 0 \<and> vy (Cell.vel c) = - 8.8 \<and> vz (Cell.vel c) = 0"
    using c [OF l(2)]
    by (auto simp: smallSystem_cells sz is2D_def massiveCell_def Vec3_def ZeroVector3_def Idx3_def [of 5])
  have d: "getCell (grid s') (Idx3 0 0 0) =
        Some \<lparr>Cell.mass = 0, mv = ZeroVector3, vel = ZeroVector3, force = ZeroVector3\<rparr>"
    using c [OF l(3)] by (auto simp: smallSystem_cells newCell_def)
  from s' a b d smallSystem_valid show ?thesis by blast
qed

section \<open>The step\<close>

text \<open>
  C7. For every state and every \<open>dt \<le> 0\<close>, \<open>step(dt)\<close> returns at once: the whole state,
  every field of every particle and of every cell, is unchanged.
\<close>

theorem step_nonpositive_dt:
  "dt \<le> 0 \<Longrightarrow> step s dt = Some s"
  by (simp add: step_def)

theorem step_nonpositive_dt_witness:
  "(- 1 :: real) \<le> 0 \<and>
   step (addParticles (newMPMSystem 0.1) (Vec3 0 0 0) (Vec3 1 1 0) 0.5 1) (- 1) =
     Some (addParticles (newMPMSystem 0.1) (Vec3 0 0 0) (Vec3 1 1 0) 0.5 1)"
  using step_nonpositive_dt [of "- 1" "addParticles (newMPMSystem 0.1) (Vec3 0 0 0) (Vec3 1 1 0) 0.5 1"]
  by simp

lemma updateGrid_shape:
  "updateGrid dt s = Some s' \<Longrightarrow> sameShape (grid s) (grid s') \<and> particles s' = particles s"
  by (auto simp: updateGrid_def updateGridCells_shape split: option.splits)

lemma updateGrid_total:
  "validGrid (grid s) \<Longrightarrow> \<exists>s'. updateGrid dt s = Some s'"
  using updateGridCells_result [of "grid s" dt] by (auto simp: updateGrid_def)

lemma gridToParticle_total:
  "\<exists>s'. gridToParticle dt s = Some s' \<and> grid s' = grid s \<and>
     map active (particles s') = map active (particles s) \<and>
     map mass (particles s') = map mass (particles s) \<and>
     (validGrid (grid s) \<longrightarrow> particlesInBounds s')"
proof -
  obtain ps' where "g2pLoop dt (grid s) (particles s) = Some ps'"
    "map active ps' = map active (particles s)" "map mass ps' = map mass (particles s)"
    "validGrid (grid s) \<longrightarrow> (\<forall>p \<in> set ps'. containsPoint (getBounds (grid s)) (pos p))"
    using g2pLoop_total by blast
  then show ?thesis by (simp add: gridToParticle_def particlesInBounds_def)
qed

lemma step_effect:
  assumes "step s dt = Some s'"
  shows "sameShape (grid s) (grid s')"
    and "map active (particles s') = map active (particles s)"
    and "map mass (particles s') = map mass (particles s)"
    and "0 < dt \<Longrightarrow> validGrid (grid s) \<Longrightarrow> particlesInBounds s'"
proof -
  have "sameShape (grid s) (grid s') \<and> map active (particles s') = map active (particles s) \<and>
     map mass (particles s') = map mass (particles s) \<and>
     (0 < dt \<longrightarrow> validGrid (grid s) \<longrightarrow> particlesInBounds s')"
  proof (cases "dt \<le> 0")
    case True
    with assms show ?thesis by (simp add: step_def sameShape_refl)
  next
    case False
    let ?s0 = "s\<lparr>grid := resetCells (grid s)\<rparr>"
    obtain s1 where s1: "particleToGrid ?s0 = Some s1" "sameShape (grid ?s0) (grid s1)"
      "map active (particles s1) = map active (particles ?s0)"
      "map mass (particles s1) = map mass (particles ?s0)"
      using particleToGrid_total by blast
    from assms False s1(1) obtain s2 where s2: "updateGrid dt s1 = Some s2" "gridToParticle dt s2 = Some s'"
      by (auto simp: step_def split: option.splits)
    note u = updateGrid_shape [OF s2(1)]
    obtain s3 where s3: "gridToParticle dt s2 = Some s3" "grid s3 = grid s2"
      "map active (particles s3) = map active (particles s2)"
      "map mass (particles s3) = map mass (particles s2)"
      "validGrid (grid s2) \<longrightarrow> particlesInBounds s3"
      using gridToParticle_total by blast
    have eq: "s3 = s'" using s2(2) s3(1) by simp
    have sh: "sameShape (grid s) (grid s2)"
      using sameShape_resetCells [of "grid s"] s1(2) u
      by (auto intro: sameShape_trans)
    show ?thesis
      using sh s1 u s3 eq sameShape_validGrid [OF sh] by simp
  qed
  then show "sameShape (grid s) (grid s')"
    and "map active (particles s') = map active (particles s)"
    and "map mass (particles s') = map mass (particles s)"
    and "0 < dt \<Longrightarrow> validGrid (grid s) \<Longrightarrow> particlesInBounds s'"
    by simp_all
qed

lemma step_total:
  assumes "validGrid (grid s)"
  shows "\<exists>s'. step s dt = Some s'"
proof (cases "dt \<le> 0")
  case True
  then show ?thesis by (simp add: step_def)
next
  case False
  let ?s0 = "s\<lparr>grid := resetCells (grid s)\<rparr>"
  obtain s1 where s1: "particleToGrid ?s0 = Some s1" "sameShape (grid ?s0) (grid s1)"
    using particleToGrid_total by blast
  have "sameShape (grid s) (grid s1)"
    using sameShape_resetCells [of "grid s"] s1(2) by (auto intro: sameShape_trans)
  then have "validGrid (grid s1)" using assms sameShape_validGrid by blast
  then obtain s2 where s2: "updateGrid dt s1 = Some s2" using updateGrid_total by blast
  obtain s3 where "gridToParticle dt s2 = Some s3" using gridToParticle_total by blast
  with False s1(1) s2 show ?thesis by (simp add: step_def)
qed

lemma particlesInBounds_shape:
  "sameShape (grid s) (grid s') \<Longrightarrow> particles s' = particles s \<Longrightarrow>
   particlesInBounds s \<Longrightarrow> particlesInBounds s'"
  by (simp add: particlesInBounds_def sameShape_getBounds)




text \<open>
  C10. For every \<open>dt\<close>, when \<open>step(dt)\<close> returns it has left the number of particles, the
  mass and the \<open>active\<close> flag of each particle (by position in the list) and the size,
  cell size, origin and number of cells of the grid unchanged; on a well-formed grid it
  does return.
\<close>

theorem step_frame:
  "(\<forall>s'. step s dt = Some s' \<longrightarrow>
      length (particles s') = length (particles s) \<and>
      map mass (particles s') = map mass (particles s) \<and>
      map active (particles s') = map active (particles s) \<and>
      gsize (grid s') = gsize (grid s) \<and> cellSize (grid s') = cellSize (grid s) \<and>
      leftBottomBackPos (grid s') = leftBottomBackPos (grid s) \<and>
      length (data (grid s')) = length (data (grid s))) \<and>
   (validGrid (grid s) \<longrightarrow> (\<exists>s'. step s dt = Some s'))"
proof (intro conjI allI impI)
  fix s' assume s': "step s dt = Some s'"
  from step_effect(3) [OF s'] show "map mass (particles s') = map mass (particles s)" .
  then show "length (particles s') = length (particles s)" by (rule map_eq_imp_length_eq)
  from step_effect(2) [OF s'] show "map active (particles s') = map active (particles s)" .
  from step_effect(1) [OF s'] show "gsize (grid s') = gsize (grid s)"
    "cellSize (grid s') = cellSize (grid s)"
    "leftBottomBackPos (grid s') = leftBottomBackPos (grid s)"
    "length (data (grid s')) = length (data (grid s))"
    by (simp_all add: sameShape_def)
next
  assume "validGrid (grid s)"
  then show "\<exists>s'. step s dt = Some s'" by (rule step_total)
qed

theorem step_frame_witness:
  "validGrid (grid smallSystem) \<and>
   (\<exists>s'. step smallSystem 0.01 = Some s' \<and> map mass (particles s') = [1] \<and>
      map active (particles s') = [True] \<and> gsize (grid s') = Idx3 5 5 1 \<and>
      cellSize (grid s') = 1 \<and> leftBottomBackPos (grid s') = Vec3 0 0 0 \<and>
      length (data (grid s')) = 25)"
proof -
  from step_frame [of smallSystem "0.01"] smallSystem_valid
  obtain s' where s': "step smallSystem 0.01 = Some s'" by blast
  with step_frame [of smallSystem "0.01"] have
    "map mass (particles s') = map mass (particles smallSystem)"
    "map active (particles s') = map active (particles smallSystem)"
    "gsize (grid s') = gsize (grid smallSystem)" "cellSize (grid s') = cellSize (grid smallSystem)"
    "leftBottomBackPos (grid s') = leftBottomBackPos (grid smallSystem)"
    "length (data (grid s')) = length (data (grid smallSystem))"
    by blast+
  then have "map mass (particles s') = [1] \<and>
      map active (particles s') = [True] \<and> gsize (grid s') = Idx3 5 5 1 \<and>
      cellSize (grid s') = 1 \<and> leftBottomBackPos (grid s') = Vec3 0 0 0 \<and>
      length (data (grid s')) = 25"
    by (simp add: smallSystem_def putCell_def newGrid_def newParticle_def initData_def Idx3_def)
  with s' smallSystem_valid show ?thesis by (intro conjI exI [of _ s']) simp_all
qed

section \<open>Partition of unity\<close>


lemma getNQuadratic_partition:
  assumes "0 \<le> f" "f < 1"
  shows "getNQuadratic (f + 0.5) + getNQuadratic (f - 0.5) + getNQuadratic (f - 1.5) = 1"
proof -
  have a: "getNQuadratic (f + 0.5) = 0.5 * (1 - f) * (1 - f)"
  proof -
    have "\<bar>f + 0.5\<bar> = f + 0.5" using assms by simp
    moreover have "\<not> f + 0.5 < (0.5::real)" "f + 0.5 < (1.5::real)" using assms by simp_all
    ultimately have "getNQuadratic (f + 0.5) = 0.5 * (1.5 - (f + 0.5)) * (1.5 - (f + 0.5))"
      by (simp add: getNQuadratic_def)
    also have "1.5 - (f + 0.5) = 1 - f" by simp
    finally show ?thesis .
  qed
  have b: "getNQuadratic (f - 0.5) = 0.75 - (f - 0.5) * (f - 0.5)"
  proof (cases "f = 0")
    case True
    then show ?thesis by (simp add: getNQuadratic_def)
  next
    case False
    then have "\<bar>f - 0.5\<bar> < 0.5" using assms by linarith
    moreover have "\<bar>f - 0.5\<bar> * \<bar>f - 0.5\<bar> = (f - 0.5) * (f - 0.5)" by (rule abs_mult_self_eq)
    ultimately show ?thesis by (simp add: getNQuadratic_def Let_def)
  qed
  have c: "getNQuadratic (f - 1.5) = 0.5 * f * f"
  proof (cases "f = 0")
    case True
    then show ?thesis by (simp add: getNQuadratic_def)
  next
    case False
    have e: "\<bar>f - 1.5\<bar> = 1.5 - f" using assms by simp
    have "\<not> 1.5 - f < (0.5::real)" "1.5 - f < (1.5::real)" using assms False by simp_all
    then have "getNQuadratic (f - 1.5) = 0.5 * (1.5 - (1.5 - f)) * (1.5 - (1.5 - f))"
      by (simp add: getNQuadratic_def e)
    also have "1.5 - (1.5 - f) = f" by simp
    finally show ?thesis .
  qed
  have "0.5 * (1 - f) * (1 - f) + (0.75 - (f - 0.5) * (f - 0.5)) + 0.5 * f * f = 1"
    by (simp add: field_simps)
  then show ?thesis by (simp only: a b c)
qed


lemma shift_divide:
  fixes cs p org A :: real
  assumes "cs \<noteq> 0"
  shows "(p - (A * cs + org)) / cs = (p - org) / cs - A"
  using assms by (simp add: field_simps)

lemma axisWeight_eq:
  fixes cs org p :: real
  assumes "0 < cs"
  shows "axisWeight cs org p d =
         getNQuadratic (((p - org) / cs - of_int \<lfloor>(p - org) / cs\<rfloor>) - of_int d - 0.5)"
proof -
  have "(p - ((of_int (\<lfloor>(p - org) / cs\<rfloor> + d) + 0.5) * cs + org)) / cs =
        (p - org) / cs - (of_int (\<lfloor>(p - org) / cs\<rfloor> + d) + 0.5)"
    using assms by (intro shift_divide) simp
  also have "\<dots> = ((p - org) / cs - of_int \<lfloor>(p - org) / cs\<rfloor>) - of_int d - 0.5"
    by simp
  finally show ?thesis by (simp only: axisWeight_def)
qed

lemma axisWeight_sum:
  fixes cs org p :: real
  assumes "0 < cs"
  shows "axisWeight cs org p (- 1) + axisWeight cs org p 0 + axisWeight cs org p 1 = 1"
proof -
  define f where "f = (p - org) / cs - of_int \<lfloor>(p - org) / cs\<rfloor>"
  have f: "0 \<le> f" "f < 1" unfolding f_def by linarith+
  have "f - of_int (- 1) - 0.5 = f + 0.5" "f - of_int 0 - 0.5 = f - 0.5"
    "f - of_int 1 - 0.5 = f - 1.5"
    by simp_all
  then have "axisWeight cs org p (- 1) = getNQuadratic (f + 0.5)"
    "axisWeight cs org p 0 = getNQuadratic (f - 0.5)"
    "axisWeight cs org p 1 = getNQuadratic (f - 1.5)"
    unfolding axisWeight_eq [OF assms] f_def [symmetric] by (simp_all only:)
  with getNQuadratic_partition [OF f] show ?thesis by (simp only:)
qed

lemma axis_index:
  fixes cs org p :: real
  assumes "0 < cs" "org + 1.5 * cs \<le> p" "p \<le> org + (of_int n - 1.5) * cs"
  shows "1 \<le> \<lfloor>(p - org) / cs\<rfloor>" "\<lfloor>(p - org) / cs\<rfloor> \<le> n - 2"
proof -
  define q where "q = (p - org) / cs"
  have "1.5 * cs \<le> p - org" using assms(2) by simp
  then have "1.5 \<le> q" unfolding q_def using assms(1) by (simp only: pos_le_divide_eq)
  then have "of_int 1 \<le> q" by linarith
  then show "1 \<le> \<lfloor>(p - org) / cs\<rfloor>" unfolding q_def by (simp only: le_floor_iff)
  have "p - org \<le> (of_int n - 1.5) * cs" using assms(3) by simp
  then have "q \<le> of_int n - 1.5" unfolding q_def using assms(1) by (simp only: pos_divide_le_eq)
  then have "q < of_int (n - 1)" by simp
  then have "\<lfloor>(p - org) / cs\<rfloor> < n - 1" unfolding q_def by (simp only: floor_less_iff)
  then show "\<lfloor>(p - org) / cs\<rfloor> \<le> n - 2" by simp
qed

lemma getWeight_interior:
  assumes v: "validGrid g"
    and l: "inLattice g (ix (cellPositionToIndex g p) + gx) (iy (cellPositionToIndex g p) + gy)
              (iz (cellPositionToIndex g p) + gz)"
  shows "getWeight g p (Idx3 gx gy gz) =
           axisWeight (cellSize g) (vx (leftBottomBackPos g)) (vx p) gx *
           axisWeight (cellSize g) (vy (leftBottomBackPos g)) (vy p) gy *
           (if is2D g then 1 else axisWeight (cellSize g) (vz (leftBottomBackPos g)) (vz p) gz)"
proof -
  let ?i = "cellPositionToIndex g p"
  have valid: "isValidCellIndex g (ix ?i + gx) (iy ?i + gy) (iz ?i + gz)"
    using toFlatIndex_bounds [OF v l] by (simp add: isValidCellIndex_def)
  have i: "ix ?i = \<lfloor>(vx p - vx (leftBottomBackPos g)) / cellSize g\<rfloor>"
    "iy ?i = \<lfloor>(vy p - vy (leftBottomBackPos g)) / cellSize g\<rfloor>"
    "\<not> is2D g \<Longrightarrow> iz ?i = \<lfloor>(vz p - vz (leftBottomBackPos g)) / cellSize g\<rfloor>"
    by (simp_all add: cellPositionToIndex_def v_floor_def v_divide_def v_sub_def
        cellDimensions_def Vec3_def Idx3_def)
  have "getWeight g p (Idx3 gx gy gz) =
     (let gridPos = cellIndexToPosition g (ix ?i + gx) (iy ?i + gy) (iz ?i + gz);
          dis = v_divide (v_sub p gridPos) (getH g)
      in getNQuadratic (vx dis) * getNQuadratic (vy dis) *
         (if is2D g then 1.0 else getNQuadratic (vz dis)))"
    using valid by (simp add: getWeight_def addVectors_def Idx3_def Let_def)
  also have "\<dots> =
           axisWeight (cellSize g) (vx (leftBottomBackPos g)) (vx p) gx *
           axisWeight (cellSize g) (vy (leftBottomBackPos g)) (vy p) gy *
           (if is2D g then 1 else axisWeight (cellSize g) (vz (leftBottomBackPos g)) (vz p) gz)"
    using i
    by (simp add: Let_def axisWeight_def cellIndexToPosition_def v_divide_def v_sub_def getH_def
        cellDimensions_def multiplyScalar_def addScalar_def ofIndex_def v_add_def Vec3_def Idx3_def)
  finally show ?thesis .
qed


lemma baseIndex_interior:
  assumes v: "validGrid g" and a: "awayFromBoundary g p" and l: "inLayer g p"
  shows "1 \<le> ix (cellPositionToIndex g p)" "ix (cellPositionToIndex g p) \<le> ix (gsize g) - 2"
    "1 \<le> iy (cellPositionToIndex g p)" "iy (cellPositionToIndex g p) \<le> iy (gsize g) - 2"
    "is2D g \<Longrightarrow> iz (cellPositionToIndex g p) = 0"
    "\<not> is2D g \<Longrightarrow> 1 \<le> iz (cellPositionToIndex g p)"
    "\<not> is2D g \<Longrightarrow> iz (cellPositionToIndex g p) \<le> iz (gsize g) - 2"
proof -
  have cs: "0 < cellSize g" using v by (simp add: validGrid_def)
  have i: "ix (cellPositionToIndex g p) = \<lfloor>(vx p - vx (leftBottomBackPos g)) / cellSize g\<rfloor>"
    "iy (cellPositionToIndex g p) = \<lfloor>(vy p - vy (leftBottomBackPos g)) / cellSize g\<rfloor>"
    "\<not> is2D g \<Longrightarrow> iz (cellPositionToIndex g p) = \<lfloor>(vz p - vz (leftBottomBackPos g)) / cellSize g\<rfloor>"
    "is2D g \<Longrightarrow> iz (cellPositionToIndex g p) = \<lfloor>vz p - vz (leftBottomBackPos g)\<rfloor>"
    by (simp_all add: cellPositionToIndex_def v_floor_def v_divide_def v_sub_def
        cellDimensions_def Vec3_def Idx3_def)
  show "1 \<le> ix (cellPositionToIndex g p)" "ix (cellPositionToIndex g p) \<le> ix (gsize g) - 2"
    unfolding i using a axis_index [OF cs, of "vx (leftBottomBackPos g)" "vx p" "ix (gsize g)"]
    by (simp_all add: awayFromBoundary_def)
  show "1 \<le> iy (cellPositionToIndex g p)" "iy (cellPositionToIndex g p) \<le> iy (gsize g) - 2"
    unfolding i using a axis_index [OF cs, of "vy (leftBottomBackPos g)" "vy p" "iy (gsize g)"]
    by (simp_all add: awayFromBoundary_def)
  show "iz (cellPositionToIndex g p) = 0" if "is2D g"
  proof -
    have "0 \<le> vz p - vz (leftBottomBackPos g)" "vz p - vz (leftBottomBackPos g) < 1"
      using l that by (simp_all add: inLayer_def)
    then have "\<lfloor>vz p - vz (leftBottomBackPos g)\<rfloor> = 0" by linarith
    then show ?thesis using i(4) [OF that] by simp
  qed
  show "1 \<le> iz (cellPositionToIndex g p)" if "\<not> is2D g"
    unfolding i(3) [OF that]
    using a that axis_index(1) [OF cs, of "vz (leftBottomBackPos g)" "vz p" "iz (gsize g)"]
    by (simp add: awayFromBoundary_def)
  show "iz (cellPositionToIndex g p) \<le> iz (gsize g) - 2" if "\<not> is2D g"
    unfolding i(3) [OF that]
    using a that axis_index(2) [OF cs, of "vz (leftBottomBackPos g)" "vz p" "iz (gsize g)"]
    by (simp add: awayFromBoundary_def)
qed

lemma getWeight_neighbour:
  assumes v: "validGrid g" and a: "awayFromBoundary g p" and l: "inLayer g p"
    and d: "- 1 \<le> gx" "gx \<le> 1" "- 1 \<le> gy" "gy \<le> 1" "- 1 \<le> gz" "gz \<le> 1" "is2D g \<Longrightarrow> gz = 0"
  shows "getWeight g p (Idx3 gx gy gz) =
           axisWeight (cellSize g) (vx (leftBottomBackPos g)) (vx p) gx *
           axisWeight (cellSize g) (vy (leftBottomBackPos g)) (vy p) gy *
           (if is2D g then 1 else axisWeight (cellSize g) (vz (leftBottomBackPos g)) (vz p) gz)"
proof (rule getWeight_interior [OF v])
  note b = baseIndex_interior [OF v a l]
  show "inLattice g (ix (cellPositionToIndex g p) + gx) (iy (cellPositionToIndex g p) + gy)
          (iz (cellPositionToIndex g p) + gz)"
  proof (cases "is2D g")
    case True
    then have "iz (gsize g) = 1" by (simp add: is2D_def)
    then show ?thesis using b(1-4) b(5) [OF True] d(1-4) d(7) [OF True]
      by (simp add: inLattice_def)
  next
    case False
    then show ?thesis using b(1-4) b(6,7) [OF False] d(1-6)
      by (simp add: inLattice_def)
  qed
qed

text \<open>
  C9 (amended). On a well-formed grid, for every position at least 1.5 cell widths from the
  grid boundary on every active axis and, when the grid is 2D, with its z coordinate inside
  the layer of cells \<open>[origin.z, origin.z + 1)\<close>, the weights of the 9 (2D) or 27 (3D)
  neighbour offsets sum to 1.
\<close>

theorem weightSum_interior:
  assumes v: "validGrid g" and a: "awayFromBoundary g p" and l: "inLayer g p"
  shows "weightSum g p = 1"
proof -
  define X where "X = axisWeight (cellSize g) (vx (leftBottomBackPos g)) (vx p)"
  define Y where "Y = axisWeight (cellSize g) (vy (leftBottomBackPos g)) (vy p)"
  define Z where "Z = axisWeight (cellSize g) (vz (leftBottomBackPos g)) (vz p)"
  have cs: "0 < cellSize g" using v by (simp add: validGrid_def)
  have sx: "X (- 1) + X 0 + X 1 = 1" unfolding X_def by (rule axisWeight_sum [OF cs])
  have sy: "Y (- 1) + Y 0 + Y 1 = 1" unfolding Y_def by (rule axisWeight_sum [OF cs])
  have sz: "Z (- 1) + Z 0 + Z 1 = 1" unfolding Z_def by (rule axisWeight_sum [OF cs])
  note w = getWeight_neighbour [OF v a l, folded X_def Y_def Z_def]
  show ?thesis
  proof (cases "is2D g")
    case True
    have w2: "getWeight g p (Idx3 gx gy 0) = X gx * Y gy"
      if "- 1 \<le> gx" "gx \<le> 1" "- 1 \<le> gy" "gy \<le> 1" for gx gy
      using w [OF that, of 0] True by simp
    have "weightSum g p =
        X (- 1) * Y (- 1) + X (- 1) * Y 0 + X (- 1) * Y 1 +
        X 0 * Y (- 1) + X 0 * Y 0 + X 0 * Y 1 +
        X 1 * Y (- 1) + X 1 * Y 0 + X 1 * Y 1"
      using True by (simp add: weightSum_def neighbours_def Let_def loop3_def upto.simps w2)
    also have "\<dots> = (X (- 1) + X 0 + X 1) * (Y (- 1) + Y 0 + Y 1)"
      by (simp add: algebra_simps)
    finally show ?thesis by (simp only: sx sy mult_1)
  next
    case False
    have w3: "getWeight g p (Idx3 gx gy gz) = X gx * Y gy * Z gz"
      if "- 1 \<le> gx" "gx \<le> 1" "- 1 \<le> gy" "gy \<le> 1" "- 1 \<le> gz" "gz \<le> 1" for gx gy gz
      using w [OF that] False by simp
    have "weightSum g p =
        X (- 1) * Y (- 1) * Z (- 1) + X (- 1) * Y (- 1) * Z 0 + X (- 1) * Y (- 1) * Z 1 +
        X (- 1) * Y 0 * Z (- 1) + X (- 1) * Y 0 * Z 0 + X (- 1) * Y 0 * Z 1 +
        X (- 1) * Y 1 * Z (- 1) + X (- 1) * Y 1 * Z 0 + X (- 1) * Y 1 * Z 1 +
        X 0 * Y (- 1) * Z (- 1) + X 0 * Y (- 1) * Z 0 + X 0 * Y (- 1) * Z 1 +
        X 0 * Y 0 * Z (- 1) + X 0 * Y 0 * Z 0 + X 0 * Y 0 * Z 1 +
        X 0 * Y 1 * Z (- 1) + X 0 * Y 1 * Z 0 + X 0 * Y 1 * Z 1 +
        X 1 * Y (- 1) * Z (- 1) + X 1 * Y (- 1) * Z 0 + X 1 * Y (- 1) * Z 1 +
        X 1 * Y 0 * Z (- 1) + X 1 * Y 0 * Z 0 + X 1 * Y 0 * Z 1 +
        X 1 * Y 1 * Z (- 1) + X 1 * Y 1 * Z 0 + X 1 * Y 1 * Z 1"
      using False by (simp add: weightSum_def neighbours_def Let_def loop3_def upto.simps w3)
    also have "\<dots> = (X (- 1) + X 0 + X 1) * (Y (- 1) + Y 0 + Y 1) * (Z (- 1) + Z 0 + Z 1)"
      by (simp add: algebra_simps)
    finally show ?thesis by (simp only: sx sy sz mult_1)
  qed
qed

theorem weightSum_interior_witness:
  "validGrid (grid (newMPMSystem 0.1)) \<and>
   awayFromBoundary (grid (newMPMSystem 0.1)) (Vec3 0.03 (- 0.02) 0.25) \<and>
   inLayer (grid (newMPMSystem 0.1)) (Vec3 0.03 (- 0.02) 0.25) \<and>
   weightSum (grid (newMPMSystem 0.1)) (Vec3 0.03 (- 0.02) 0.25) = 1 \<and>
   validGrid (newGrid (Idx3 8 8 8) 0.5 (Vec3 0 0 0)) \<and>
   \<not> is2D (newGrid (Idx3 8 8 8) 0.5 (Vec3 0 0 0)) \<and>
   awayFromBoundary (newGrid (Idx3 8 8 8) 0.5 (Vec3 0 0 0)) (Vec3 2.1 1.9 2.3) \<and>
   inLayer (newGrid (Idx3 8 8 8) 0.5 (Vec3 0 0 0)) (Vec3 2.1 1.9 2.3) \<and>
   weightSum (newGrid (Idx3 8 8 8) 0.5 (Vec3 0 0 0)) (Vec3 2.1 1.9 2.3) = 1"
proof -
  have a: "validGrid (grid (newMPMSystem 0.1))"
    "awayFromBoundary (grid (newMPMSystem 0.1)) (Vec3 0.03 (- 0.02) 0.25)"
    "inLayer (grid (newMPMSystem 0.1)) (Vec3 0.03 (- 0.02) 0.25)"
    by (simp_all add: validGrid_def awayFromBoundary_def inLayer_def is2D_def newMPMSystem_def
        newGrid_def initData_def GRID_SIZE_def HALF_GRID_SIZE_def multiplyScalar_def Vec3_def
        Idx3_def)
  have b: "validGrid (newGrid (Idx3 8 8 8) 0.5 (Vec3 0 0 0))"
    "\<not> is2D (newGrid (Idx3 8 8 8) 0.5 (Vec3 0 0 0))"
    "awayFromBoundary (newGrid (Idx3 8 8 8) 0.5 (Vec3 0 0 0)) (Vec3 2.1 1.9 2.3)"
    "inLayer (newGrid (Idx3 8 8 8) 0.5 (Vec3 0 0 0)) (Vec3 2.1 1.9 2.3)"
    by (simp_all add: validGrid_def awayFromBoundary_def inLayer_def is2D_def newGrid_def
        initData_def Vec3_def Idx3_def)
  from weightSum_interior [OF a] weightSum_interior [OF b(1,3,4)] a b show ?thesis by simp
qed

text \<open>
  C9 as stated fails on a 2D grid: the position \<open>(0, 0, 1)\<close> is 32 cells away from the
  boundary on x and y, the only active axes, and lies on the far face of the bounding box;
  its cell index on z is 1, every neighbour index is invalid and all nine weights are 0.
\<close>

theorem weightSum_outside_layer:
  "validGrid (grid (newMPMSystem 0.1)) \<and>
   awayFromBoundary (grid (newMPMSystem 0.1)) (Vec3 0 0 1) \<and>
   containsPoint (getBounds (grid (newMPMSystem 0.1))) (Vec3 0 0 1) \<and>
   weightSum (grid (newMPMSystem 0.1)) (Vec3 0 0 1) = 0"
  by (simp add: validGrid_def awayFromBoundary_def containsPoint_def getBounds_def
      gridDimensions_def weightSum_def neighbours_def loop3_def upto.simps getWeight_def
      cellPositionToIndex_def addVectors_def isValidCellIndex_def toFlatIndex_def
      cellDimensions_def is2D_def newMPMSystem_def newGrid_def initData_def GRID_SIZE_def
      HALF_GRID_SIZE_def multiplyScalar_def v_multiply_def v_add_def v_sub_def v_divide_def
      v_floor_def ofIndex_def Vec3_def Idx3_def Let_def)

end
